theory Spec2Isabelle
  imports Main "HOL-Library.Word" "HOL-Library.Char_ord"
begin

unbundle bit_operations_syntax

section \<open>Bytes and strings\<close>

text \<open>
  A Go string is a sequence of bytes; \<^typ>\<open>string\<close> is a list of 8-bit characters, so
  \<^term>\<open>length\<close> is Go's \<open>len\<close> and the conversion \<open>[]byte(s)\<close> keeps every byte.
\<close>

type_synonym byte = "8 word"
type_synonym word32 = "32 word"

definition bytes_of :: "string \<Rightarrow> byte list" where
  "bytes_of s = map of_char s"

definition HasPrefix :: "string \<Rightarrow> string \<Rightarrow> bool" where
  "HasPrefix s p = (take (length p) s = p)"

text \<open>\<open>fmt.Sprintf("%d", n)\<close>: the decimal digits, most significant first, with a minus sign
  for a negative number.\<close>

definition digit_char :: "nat \<Rightarrow> char" where
  "digit_char d = char_of (48 + d)"

function utoa :: "nat \<Rightarrow> string" where
  "utoa n = (if n < 10 then [digit_char n] else utoa (n div 10) @ [digit_char (n mod 10)])"
  by pat_completeness auto
termination
  by (relation "measure id") auto

declare utoa.simps [simp del]

definition itoa :: "int \<Rightarrow> string" where
  "itoa i = (if i < 0 then CHR ''-'' # utoa (nat (- i)) else utoa (nat i))"

section \<open>SHA-256\<close>

text \<open>
  \<open>crypto/sha256\<close> is the hash of FIPS 180-4. The eight working variables are a tuple,
  the message schedule is a window of the last sixteen words.
\<close>

type_synonym hash8 = "word32 \<times> word32 \<times> word32 \<times> word32 \<times> word32 \<times> word32 \<times> word32 \<times> word32"

definition rotr :: "nat \<Rightarrow> word32 \<Rightarrow> word32" where
  "rotr n x = drop_bit n x OR push_bit (32 - n) x"

definition Ch :: "word32 \<Rightarrow> word32 \<Rightarrow> word32 \<Rightarrow> word32" where
  "Ch x y z = (x AND y) XOR (NOT x AND z)"

definition Maj :: "word32 \<Rightarrow> word32 \<Rightarrow> word32 \<Rightarrow> word32" where
  "Maj x y z = (x AND y) XOR (x AND z) XOR (y AND z)"

definition bsig0 :: "word32 \<Rightarrow> word32" where
  "bsig0 x = rotr 2 x XOR rotr 13 x XOR rotr 22 x"

definition bsig1 :: "word32 \<Rightarrow> word32" where
  "bsig1 x = rotr 6 x XOR rotr 11 x XOR rotr 25 x"

definition ssig0 :: "word32 \<Rightarrow> word32" where
  "ssig0 x = rotr 7 x XOR rotr 18 x XOR drop_bit 3 x"

definition ssig1 :: "word32 \<Rightarrow> word32" where
  "ssig1 x = rotr 17 x XOR rotr 19 x XOR drop_bit 10 x"

definition sha256_K :: "word32 list" where
  "sha256_K = [
    0x428A2F98, 0x71374491, 0xB5C0FBCF, 0xE9B5DBA5, 0x3956C25B, 0x59F111F1, 0x923F82A4, 0xAB1C5ED5,
    0xD807AA98, 0x12835B01, 0x243185BE, 0x550C7DC3, 0x72BE5D74, 0x80DEB1FE, 0x9BDC06A7, 0xC19BF174,
    0xE49B69C1, 0xEFBE4786, 0x0FC19DC6, 0x240CA1CC, 0x2DE92C6F, 0x4A7484AA, 0x5CB0A9DC, 0x76F988DA,
    0x983E5152, 0xA831C66D, 0xB00327C8, 0xBF597FC7, 0xC6E00BF3, 0xD5A79147, 0x06CA6351, 0x14292967,
    0x27B70A85, 0x2E1B2138, 0x4D2C6DFC, 0x53380D13, 0x650A7354, 0x766A0ABB, 0x81C2C92E, 0x92722C85,
    0xA2BFE8A1, 0xA81A664B, 0xC24B8B70, 0xC76C51A3, 0xD192E819, 0xD6990624, 0xF40E3585, 0x106AA070,
    0x19A4C116, 0x1E376C08, 0x2748774C, 0x34B0BCB5, 0x391C0CB3, 0x4ED8AA4A, 0x5B9CCA4F, 0x682E6FF3,
    0x748F82EE, 0x78A5636F, 0x84C87814, 0x8CC70208, 0x90BEFFFA, 0xA4506CEB, 0xBEF9A3F7, 0xC67178F2]"

definition sha256_init :: hash8 where
  "sha256_init = (0x6A09E667, 0xBB67AE85, 0x3C6EF372, 0xA54FF53A,
                  0x510E527F, 0x9B05688C, 0x1F83D9AB, 0x5BE0CD19)"

definition be32 :: "byte \<Rightarrow> byte \<Rightarrow> byte \<Rightarrow> byte \<Rightarrow> word32" where
  "be32 a b c d = push_bit 24 (ucast a) OR push_bit 16 (ucast b) OR push_bit 8 (ucast c) OR ucast d"

fun block_words :: "byte list \<Rightarrow> word32 list" where
  "block_words (a # b # c # d # rest) = be32 a b c d # block_words rest"
| "block_words _ = []"

text \<open>The window holds \<open>W\<^sub>t .. W\<^sub>t\<^sub>+\<^sub>1\<^sub>5\<close>; the next word is
  \<open>\<sigma>\<^sub>1(W\<^sub>t\<^sub>+\<^sub>1\<^sub>4) + W\<^sub>t\<^sub>+\<^sub>9 + \<sigma>\<^sub>0(W\<^sub>t\<^sub>+\<^sub>1) + W\<^sub>t\<close>.\<close>

definition next_window :: "word32 list \<Rightarrow> word32 list" where
  "next_window w = tl w @ [ssig1 (w ! 14) + w ! 9 + ssig0 (w ! 1) + w ! 0]"

fun shift_in :: "word32 \<Rightarrow> word32 \<Rightarrow> hash8 \<Rightarrow> hash8" where
  "shift_in t1 t2 (a, b, c, d, e, f, g, h) = (t1 + t2, a, b, c, d + t1, e, f, g)"

fun sha_round :: "word32 \<Rightarrow> word32 \<Rightarrow> hash8 \<Rightarrow> hash8" where
  "sha_round k w (a, b, c, d, e, f, g, h) =
     shift_in (h + bsig1 e + Ch e f g + k + w) (bsig0 a + Maj a b c) (a, b, c, d, e, f, g, h)"

fun sha_rounds :: "word32 list \<Rightarrow> word32 list \<Rightarrow> hash8 \<Rightarrow> hash8" where
  "sha_rounds [] w s = s"
| "sha_rounds (k # ks) w s = sha_rounds ks (next_window w) (sha_round k (w ! 0) s)"

fun add8 :: "hash8 \<Rightarrow> hash8 \<Rightarrow> hash8" where
  "add8 (a, b, c, d, e, f, g, h) (a', b', c', d', e', f', g', h') =
     (a + a', b + b', c + c', d + d', e + e', f + f', g + g', h + h')"

definition sha256_block :: "hash8 \<Rightarrow> byte list \<Rightarrow> hash8" where
  "sha256_block h blk = add8 h (sha_rounds sha256_K (block_words blk) h)"

definition be64_bytes :: "64 word \<Rightarrow> byte list" where
  "be64_bytes n = map (\<lambda>i. ucast (drop_bit (8 * i) n)) [7, 6, 5, 4, 3, 2, 1, 0]"

definition sha256_pad :: "byte list \<Rightarrow> byte list" where
  "sha256_pad m =
     m @ [0x80] @ replicate ((64 - (length m + 9) mod 64) mod 64) 0
       @ be64_bytes (of_nat (8 * length m))"

function sha256_blocks :: "hash8 \<Rightarrow> byte list \<Rightarrow> hash8" where
  "sha256_blocks h bs =
     (if length bs < 64 then h
      else sha256_blocks (sha256_block h (take 64 bs)) (drop 64 bs))"
  by pat_completeness auto
termination
  by (relation "measure (\<lambda>(h, bs). length bs)") auto

declare sha256_blocks.simps [simp del]

definition be32_bytes :: "word32 \<Rightarrow> byte list" where
  "be32_bytes w = [ucast (drop_bit 24 w), ucast (drop_bit 16 w), ucast (drop_bit 8 w), ucast w]"

fun digest_bytes :: "hash8 \<Rightarrow> byte list" where
  "digest_bytes (a, b, c, d, e, f, g, h) =
     be32_bytes a @ be32_bytes b @ be32_bytes c @ be32_bytes d
       @ be32_bytes e @ be32_bytes f @ be32_bytes g @ be32_bytes h"

definition sha256 :: "byte list \<Rightarrow> byte list" where
  "sha256 m = digest_bytes (sha256_blocks sha256_init (sha256_pad m))"


text \<open>\<open>sha256.New()\<close>, \<open>Write\<close> and \<open>Sum\<close>: the hasher collects what is written to it,
  \<open>Sum(b)\<close> appends the digest of everything written so far to \<open>b\<close>.\<close>

definition sha256_New :: "byte list" where
  "sha256_New = []"

definition hasher_Write :: "byte list \<Rightarrow> byte list \<Rightarrow> byte list" where
  "hasher_Write hasher p = hasher @ p"

definition hasher_Sum :: "byte list \<Rightarrow> byte list \<Rightarrow> byte list" where
  "hasher_Sum hasher b = b @ sha256 hasher"

section \<open>URL-safe base64\<close>

text \<open>\<open>base64.URLEncoding\<close>: the alphabet of RFC 4648 section 5, padded with \<open>=\<close>.\<close>

definition encodeURL :: string where
  "encodeURL = ''ABCDEFGHIJKLMNOPQRSTUVWXYZabcdefghijklmnopqrstuvwxyz0123456789-_''"

definition pack3 :: "byte \<Rightarrow> byte \<Rightarrow> byte \<Rightarrow> word32" where
  "pack3 a b c = push_bit 16 (ucast a) OR push_bit 8 (ucast b) OR ucast c"

definition sextet :: "word32 \<Rightarrow> nat \<Rightarrow> char" where
  "sextet val sh = encodeURL ! unat (drop_bit sh val AND 0x3F)"

fun EncodeToString :: "byte list \<Rightarrow> string" where
  "EncodeToString (a # b # c # rest) =
     [sextet (pack3 a b c) 18, sextet (pack3 a b c) 12, sextet (pack3 a b c) 6,
      sextet (pack3 a b c) 0] @ EncodeToString rest"
| "EncodeToString [a, b] =
     [sextet (pack3 a b 0) 18, sextet (pack3 a b 0) 12, sextet (pack3 a b 0) 6, CHR ''='']"
| "EncodeToString [a] =
     [sextet (pack3 a 0 0) 18, sextet (pack3 a 0 0) 12, CHR ''='', CHR ''='']"
| "EncodeToString [] = []"

section \<open>Key generator\<close>

text \<open>\<open>generateShortURLKey(longUrl string, salt int)\<close>. Go's \<open>int\<close> is a 64-bit integer; the
  function only prints it, so the salt is an \<^typ>\<open>int\<close> here.\<close>

definition generateShortURLKey :: "string \<Rightarrow> int \<Rightarrow> string" where
  "generateShortURLKey longUrl salt =
     (let hasher = sha256_New;
          hasher = hasher_Write hasher (bytes_of longUrl);
          hasher = hasher_Write hasher (bytes_of (CHR '':'' # itoa salt));
          hashBytes = hasher_Sum hasher [];
          encoded = EncodeToString hashBytes
      in if length encoded < 7 then ''encoded string too short'' else take 7 encoded)"

text \<open>The first draft of the generator (\<open>shortener/shortener.go\<close>,
  \<open>generateShortURLKey(longUrl string)\<close>): the same steps with no salt written.\<close>

definition generateShortURLKey_unsalted :: "string \<Rightarrow> string" where
  "generateShortURLKey_unsalted longUrl =
     (let hasher = sha256_New;
          hasher = hasher_Write hasher (bytes_of longUrl);
          hashBytes = hasher_Sum hasher [];
          encoded = EncodeToString hashBytes
      in if length encoded < 7 then ''encoded string too short'' else take 7 encoded)"

section \<open>Parsing URLs\<close>

text \<open>
  \<open>url.Parse\<close> belongs to Go's standard library (\<open>net/url\<close>), not to the repository. The
  model follows the library's algorithm (Go 1.19 to 1.24) for what \<open>ValidateLongURL\<close>
  reads: whether parsing fails, the scheme and the host. Path, query, fragment and
  user information are checked where the library checks them and are not stored.
\<close>

datatype parse_error =
    InvalidControlCharacter
  | MissingProtocolScheme
  | FirstPathSegmentColon
  | MissingBracket
  | InvalidPort string
  | EscapeError string
  | InvalidHostError string
  | InvalidUserinfo

record URL =
  Scheme :: string
  Opaque :: string
  Host :: string

datatype encoding = encodePath | encodeHost | encodeZone | encodeUserPassword | encodeFragment

definition cut_before :: "char \<Rightarrow> string \<Rightarrow> string" where
  "cut_before sep s = takeWhile (\<lambda>c. c \<noteq> sep) s"

definition cut_after :: "char \<Rightarrow> string \<Rightarrow> string" where
  "cut_after sep s = drop 1 (dropWhile (\<lambda>c. c \<noteq> sep) s)"

text \<open>\<open>strings.LastIndexByte\<close>, with \<open>None\<close> for Go's \<open>-1\<close>.\<close>

definition LastIndexByte :: "string \<Rightarrow> char \<Rightarrow> nat option" where
  "LastIndexByte s c =
     (if c \<in> set s then Some (length s - 1 - length (takeWhile (\<lambda>x. x \<noteq> c) (rev s))) else None)"

text \<open>\<open>strings.Index\<close> and \<open>strings.Contains\<close>.\<close>

fun Index_from :: "nat \<Rightarrow> string \<Rightarrow> string \<Rightarrow> nat option" where
  "Index_from i [] sub = (if sub = [] then Some i else None)"
| "Index_from i (c # s) sub =
     (if HasPrefix (c # s) sub then Some i else Index_from (Suc i) s sub)"

definition Index :: "string \<Rightarrow> string \<Rightarrow> nat option" where
  "Index s sub = Index_from 0 s sub"

definition Contains :: "string \<Rightarrow> string \<Rightarrow> bool" where
  "Contains s sub = (Index s sub \<noteq> None)"

definition isUpper :: "char \<Rightarrow> bool" where
  "isUpper c = (CHR ''A'' \<le> c \<and> c \<le> CHR ''Z'')"

definition isLower :: "char \<Rightarrow> bool" where
  "isLower c = (CHR ''a'' \<le> c \<and> c \<le> CHR ''z'')"

definition isDigit :: "char \<Rightarrow> bool" where
  "isDigit c = (CHR ''0'' \<le> c \<and> c \<le> CHR ''9'')"

text \<open>\<open>strings.ToLower\<close> on ASCII letters. The library also maps letters beyond ASCII; no
  such letter is mapped to a character of the host names and prefixes compared in
  \<open>ValidateLongURL\<close>, and a scheme holds ASCII only.\<close>

definition lower_char :: "char \<Rightarrow> char" where
  "lower_char c = (if isUpper c then char_of (of_char c + (32 :: nat)) else c)"

definition ToLower :: "string \<Rightarrow> string" where
  "ToLower s = map lower_char s"

definition stringContainsCTLByte :: "string \<Rightarrow> bool" where
  "stringContainsCTLByte s = list_ex (\<lambda>b. b < CHR '' '' \<or> b = CHR 0x7F) s"

fun getScheme_loop :: "string \<Rightarrow> nat \<Rightarrow> string \<Rightarrow> parse_error + string \<times> string" where
  "getScheme_loop rawURL i [] = Inr ('''', rawURL)"
| "getScheme_loop rawURL i (c # cs) =
     (if isLower c \<or> isUpper c then getScheme_loop rawURL (Suc i) cs
      else if isDigit c \<or> c = CHR ''+'' \<or> c = CHR ''-'' \<or> c = CHR ''.'' then
        (if i = 0 then Inr ('''', rawURL) else getScheme_loop rawURL (Suc i) cs)
      else if c = CHR '':'' then
        (if i = 0 then Inl MissingProtocolScheme
         else Inr (take i rawURL, drop (Suc i) rawURL))
      else Inr ('''', rawURL))"

definition getScheme :: "string \<Rightarrow> parse_error + string \<times> string" where
  "getScheme rawURL = getScheme_loop rawURL 0 rawURL"

definition ishex :: "char \<Rightarrow> bool" where
  "ishex c = (isDigit c \<or> (CHR ''a'' \<le> c \<and> c \<le> CHR ''f'') \<or> (CHR ''A'' \<le> c \<and> c \<le> CHR ''F''))"

definition unhex :: "char \<Rightarrow> nat" where
  "unhex c =
     (if isDigit c then of_char c - of_char CHR ''0''
      else if CHR ''a'' \<le> c \<and> c \<le> CHR ''f'' then of_char c - of_char CHR ''a'' + 10
      else if CHR ''A'' \<le> c \<and> c \<le> CHR ''F'' then of_char c - of_char CHR ''A'' + 10
      else 0)"

text \<open>\<open>shouldEscape(c, encodeHost)\<close>: the bytes a host may not hold unescaped.\<close>

definition shouldEscape_host :: "char \<Rightarrow> bool" where
  "shouldEscape_host c =
     (\<not> (isLower c \<or> isUpper c \<or> isDigit c
         \<or> c \<in> set ''!$&()*+,;=:[]<>'' \<or> c = CHR 0x27 \<or> c = CHR 0x22
         \<or> c \<in> set ''-_.~''))"

text \<open>The first pass of \<open>unescape\<close>: every \<open>%\<close> starts a well-formed escape, and a host holds
  no byte that would have to be escaped.\<close>

fun unescape_check :: "encoding \<Rightarrow> string \<Rightarrow> parse_error option" where
  "unescape_check mode [] = None"
| "unescape_check mode (c # s) =
     (if c = CHR ''%'' then
        (case s of
           h1 # h2 # rest \<Rightarrow>
             if \<not> ishex h1 \<or> \<not> ishex h2 then Some (EscapeError [c, h1, h2])
             else if mode = encodeHost \<and> unhex h1 < 8 \<and> [c, h1, h2] \<noteq> ''%25''
               then Some (EscapeError [c, h1, h2])
             else if mode = encodeZone \<and> [c, h1, h2] \<noteq> ''%25''
                 \<and> unhex h1 * 16 + unhex h2 \<noteq> 32
                 \<and> shouldEscape_host (char_of (unhex h1 * 16 + unhex h2))
               then Some (EscapeError [c, h1, h2])
             else unescape_check mode rest
         | _ \<Rightarrow> Some (EscapeError (c # s)))
      else if (mode = encodeHost \<or> mode = encodeZone) \<and> c < CHR 0x80 \<and> shouldEscape_host c
        then Some (InvalidHostError [c])
      else unescape_check mode s)"

text \<open>The second pass: each escape becomes its byte.\<close>

fun unescape_decode :: "string \<Rightarrow> string" where
  "unescape_decode (c # h1 # h2 # rest) =
     (if c = CHR ''%'' then char_of (unhex h1 * 16 + unhex h2) # unescape_decode rest
      else c # unescape_decode (h1 # h2 # rest))"
| "unescape_decode s = s"

definition unescape :: "string \<Rightarrow> encoding \<Rightarrow> parse_error + string" where
  "unescape s mode =
     (case unescape_check mode s of Some e \<Rightarrow> Inl e | None \<Rightarrow> Inr (unescape_decode s))"

definition validOptionalPort :: "string \<Rightarrow> bool" where
  "validOptionalPort port =
     (case port of [] \<Rightarrow> True | c # ds \<Rightarrow> c = CHR '':'' \<and> list_all isDigit ds)"

definition parseHost :: "string \<Rightarrow> parse_error + string" where
  "parseHost host =
     (if HasPrefix host ''['' then
        (case LastIndexByte host CHR '']'' of
           None \<Rightarrow> Inl MissingBracket
         | Some i \<Rightarrow>
             if \<not> validOptionalPort (drop (Suc i) host) then Inl (InvalidPort (drop (Suc i) host))
             else
               (case Index (take i host) ''%25'' of
                  None \<Rightarrow> unescape host encodeHost
                | Some zone \<Rightarrow>
                    (case unescape (take zone host) encodeHost of
                       Inl e \<Rightarrow> Inl e
                     | Inr host1 \<Rightarrow>
                         (case unescape (drop zone (take i host)) encodeZone of
                            Inl e \<Rightarrow> Inl e
                          | Inr host2 \<Rightarrow>
                              (case unescape (drop i host) encodeHost of
                                 Inl e \<Rightarrow> Inl e
                               | Inr host3 \<Rightarrow> Inr (host1 @ host2 @ host3))))))
      else
        (case LastIndexByte host CHR '':'' of
           Some i \<Rightarrow>
             if \<not> validOptionalPort (drop i host) then Inl (InvalidPort (drop i host))
             else unescape host encodeHost
         | None \<Rightarrow> unescape host encodeHost))"

definition validUserinfo :: "string \<Rightarrow> bool" where
  "validUserinfo s =
     list_all (\<lambda>r. isUpper r \<or> isLower r \<or> isDigit r
                  \<or> r \<in> set ''-._:~!$&()*+,;=%@'' \<or> r = CHR 0x27) s"

definition parseAuthority :: "string \<Rightarrow> parse_error + string" where
  "parseAuthority authority =
     (case LastIndexByte authority CHR ''@'' of
        None \<Rightarrow> parseHost authority
      | Some i \<Rightarrow>
          (case parseHost (drop (Suc i) authority) of
             Inl e \<Rightarrow> Inl e
           | Inr host \<Rightarrow>
               let userinfo = take i authority in
               if \<not> validUserinfo userinfo then Inl InvalidUserinfo
               else if CHR '':'' \<notin> set userinfo then
                 (case unescape userinfo encodeUserPassword of
                    Inl e \<Rightarrow> Inl e | Inr _ \<Rightarrow> Inr host)
               else
                 (case unescape (cut_before CHR '':'' userinfo) encodeUserPassword of
                    Inl e \<Rightarrow> Inl e
                  | Inr _ \<Rightarrow>
                      (case unescape (cut_after CHR '':'' userinfo) encodeUserPassword of
                         Inl e \<Rightarrow> Inl e | Inr _ \<Rightarrow> Inr host))))"

text \<open>\<open>setPath\<close> fails when the path does not unescape.\<close>

definition setPath :: "string \<Rightarrow> parse_error option" where
  "setPath p = unescape_check encodePath p"

text \<open>The library's inner \<open>parse(rawURL, viaRequest = false)\<close>.\<close>

definition parse :: "string \<Rightarrow> parse_error + URL" where
  "parse rawURL =
     (if stringContainsCTLByte rawURL then Inl InvalidControlCharacter
      else if rawURL = ''*'' then Inr \<lparr>Scheme = '''', Opaque = '''', Host = ''''\<rparr>
      else
        (case getScheme rawURL of
           Inl e \<Rightarrow> Inl e
         | Inr (scheme0, rest0) \<Rightarrow>
             let scheme = ToLower scheme0;
                 rest = cut_before CHR ''?'' rest0
             in
               if \<not> HasPrefix rest ''/'' \<and> scheme \<noteq> '''' then
                 Inr \<lparr>Scheme = scheme, Opaque = rest, Host = ''''\<rparr>
               else if \<not> HasPrefix rest ''/'' \<and> CHR '':'' \<in> set (cut_before CHR ''/'' rest) then
                 Inl FirstPathSegmentColon
               else if (scheme \<noteq> '''' \<or> \<not> HasPrefix rest ''///'') \<and> HasPrefix rest ''//'' then
                 (case parseAuthority (cut_before CHR ''/'' (drop 2 rest)) of
                    Inl e \<Rightarrow> Inl e
                  | Inr host \<Rightarrow>
                      (case setPath (dropWhile (\<lambda>c. c \<noteq> CHR ''/'') (drop 2 rest)) of
                         Some e \<Rightarrow> Inl e
                       | None \<Rightarrow> Inr \<lparr>Scheme = scheme, Opaque = '''', Host = host\<rparr>))
               else
                 (case setPath rest of
                    Some e \<Rightarrow> Inl e
                  | None \<Rightarrow> Inr \<lparr>Scheme = scheme, Opaque = '''', Host = ''''\<rparr>)))"

text \<open>\<open>url.Parse\<close>: the fragment is cut off first and must unescape.\<close>

definition url_Parse :: "string \<Rightarrow> parse_error + URL" where
  "url_Parse rawURL =
     (case parse (cut_before CHR ''#'' rawURL) of
        Inl e \<Rightarrow> Inl e
      | Inr url \<Rightarrow>
          if cut_after CHR ''#'' rawURL = '''' then Inr url
          else
            (case unescape_check encodeFragment (cut_after CHR ''#'' rawURL) of
               Some e \<Rightarrow> Inl e
             | None \<Rightarrow> Inr url))"

text \<open>\<open>(*URL).Hostname\<close>: the host without a valid port and without the brackets of an
  IPv6 literal.\<close>

definition stripPort :: "string \<Rightarrow> string" where
  "stripPort hostPort =
     (case LastIndexByte hostPort CHR '':'' of
        Some colon \<Rightarrow>
          if validOptionalPort (drop colon hostPort) then take colon hostPort else hostPort
      | None \<Rightarrow> hostPort)"

definition Hostname :: "URL \<Rightarrow> string" where
  "Hostname u =
     (let host = stripPort (Host u)
      in if HasPrefix host ''['' \<and> host \<noteq> [] \<and> last host = CHR '']''
         then butlast (tl host) else host)"

section \<open>Validator\<close>

definition MaxURLLength :: nat where
  "MaxURLLength = 2048"

datatype validation_error =
    ExceedsMaximumLength nat
  | InvalidURLFormat parse_error
  | SchemeNotHTTP
  | InternalOrPrivate

text \<open>\<open>ValidateLongURL\<close>; \<open>None\<close> is Go's \<open>nil\<close> error. The errors are, in the order of the
  source, \<open>url exceeds maximum length of %d characters\<close>, \<open>invalid url format %w\<close>,
  \<open>URL must use http or https scheme\<close> and \<open>internal or private URLs are not allowed\<close>.\<close>

definition ValidateLongURL :: "string \<Rightarrow> validation_error option" where
  "ValidateLongURL longURL =
     (if length longURL > MaxURLLength then Some (ExceedsMaximumLength MaxURLLength)
      else
        (case url_Parse longURL of
           Inl err \<Rightarrow> Some (InvalidURLFormat err)
         | Inr parsedURL \<Rightarrow>
             if Scheme parsedURL \<noteq> ''http'' \<and> Scheme parsedURL \<noteq> ''https'' then Some SchemeNotHTTP
             else
               let host = ToLower (Hostname parsedURL) in
               if host = ''localhost'' \<or>
                  host = ''127.0.0.1'' \<or>
                  host = ''0.0.0.0'' \<or>
                  host = ''::1'' \<or>
                  HasPrefix host ''127.'' \<or>
                  HasPrefix host ''10.'' \<or>
                  HasPrefix host ''192.168.'' \<or>
                  HasPrefix host ''172.16.''
               then Some InternalOrPrivate
               else None))"

section \<open>Mapping store\<close>

text \<open>
  The table \<open>urls\<close> of \<open>create_table.sql\<close>: \<open>short_key VARCHAR(7) UNIQUE NOT NULL\<close>,
  \<open>long_url TEXT NOT NULL\<close>, \<open>click_count INTEGER DEFAULT 0\<close>. The columns \<open>id\<close> and
  \<open>created_at\<close> are filled by the database and never read or written by the Go code;
  they are left out. (The other draft of the schema, with \<open>DEFAULT 1\<close>, lacks a comma
  before \<open>click_count\<close> and is not a statement PostgreSQL accepts.)

  The rows are kept in insertion order. A query without \<open>ORDER BY\<close> that is read with
  \<open>QueryRow\<close> yields the first matching row of this order.
\<close>

record url_row =
  short_key :: string
  long_url :: string
  click_count :: int

text \<open>An error of the driver: a PostgreSQL error (\<open>*pq.Error\<close>, with its code and
  message) or any other failure (connection lost, context cancelled).\<close>

datatype dberror = PqError string string | DriverError string

text \<open>What \<open>QueryRow(...).Scan\<close> returns as its error: \<open>sql.ErrNoRows\<close> or a failure.\<close>

datatype scan_error = ErrNoRows | ScanFailed dberror

text \<open>One entry of the journal for each statement sent to the database, with its outcome.\<close>

datatype db_event =
    SelectShortKey string "scan_error + string"
  | InsertURL string string "dberror option"
  | UpdateClickCount string "scan_error + string"

text \<open>
  The state behind \<open>*sql.DB\<close>: the table, the failures of the environment still to come
  (one entry per statement, \<open>None\<close> for a statement that reaches the table; an empty list
  means no failure), and the journal of the statements executed so far.
\<close>

record database =
  rows :: "url_row list"
  faults :: "dberror option list"
  journal :: "db_event list"

definition next_fault :: "database \<Rightarrow> dberror option" where
  "next_fault db = (case faults db of [] \<Rightarrow> None | f # _ \<Rightarrow> f)"

text \<open>\<open>SELECT short_key FROM urls WHERE long_url = $1\<close>, read with \<open>QueryRow\<close>.\<close>

definition sql_select_short_key :: "database \<Rightarrow> string \<Rightarrow> (scan_error + string) \<times> database" where
  "sql_select_short_key db longURL =
     (let result =
            (case next_fault db of
               Some e \<Rightarrow> Inl (ScanFailed e)
             | None \<Rightarrow>
                 (case find (\<lambda>r. long_url r = longURL) (rows db) of
                    None \<Rightarrow> Inl ErrNoRows
                  | Some r \<Rightarrow> Inr (short_key r)))
      in (result,
          db\<lparr>faults := tl (faults db),
             journal := journal db @ [SelectShortKey longURL result]\<rparr>))"

text \<open>\<open>INSERT INTO urls (short_key, long_url) VALUES ($1, $2)\<close>: refused with code 22001
  when the key does not fit \<open>VARCHAR(7)\<close> and with code 23505 when the key is already in
  the table (\<open>UNIQUE\<close>); otherwise the row is added with \<open>click_count\<close> at its default.\<close>

definition sql_insert_url :: "database \<Rightarrow> string \<Rightarrow> string \<Rightarrow> dberror option \<times> database" where
  "sql_insert_url db shortKey longURL =
     (let result =
            (case next_fault db of
               Some e \<Rightarrow> Some e
             | None \<Rightarrow>
                 if length shortKey > 7
                   then Some (PqError ''22001'' ''value too long for type character varying(7)'')
                 else if list_ex (\<lambda>r. short_key r = shortKey) (rows db)
                   then Some (PqError ''23505''
                                ''duplicate key value violates unique constraint'')
                 else None)
      in (result,
          db\<lparr>rows := (if result = None
                       then rows db @ [\<lparr>short_key = shortKey, long_url = longURL, click_count = 0\<rparr>]
                       else rows db),
             faults := tl (faults db),
             journal := journal db @ [InsertURL shortKey longURL result]\<rparr>))"

text \<open>\<open>UPDATE urls SET click_count = click_count + 1 WHERE short_key = $1 RETURNING long_url\<close>,
  read with \<open>QueryRow\<close>. \<open>INTEGER\<close> has 32 bits: the statement fails with code 22003, and
  changes nothing, when a counter would leave the range.\<close>

definition bump_click :: "string \<Rightarrow> url_row \<Rightarrow> url_row" where
  "bump_click shortKey r =
     (if short_key r = shortKey then r\<lparr>click_count := click_count r + 1\<rparr> else r)"

definition sql_update_click_count :: "database \<Rightarrow> string \<Rightarrow> (scan_error + string) \<times> database" where
  "sql_update_click_count db shortKey =
     (let hit = filter (\<lambda>r. short_key r = shortKey) (rows db);
          result =
            (case next_fault db of
               Some e \<Rightarrow> Inl (ScanFailed e)
             | None \<Rightarrow>
                 if list_ex (\<lambda>r. click_count r + 1 > 2147483647) hit
                   then Inl (ScanFailed (PqError ''22003'' ''integer out of range''))
                 else (case hit of [] \<Rightarrow> Inl ErrNoRows | r # _ \<Rightarrow> Inr (long_url r)))
      in (result,
          db\<lparr>rows := (case result of
                        Inl (ScanFailed _) \<Rightarrow> rows db
                      | _ \<Rightarrow> map (bump_click shortKey) (rows db)),
             faults := tl (faults db),
             journal := journal db @ [UpdateClickCount shortKey result]\<rparr>))"

section \<open>Shortening engine\<close>

definition MaxRetries :: nat where
  "MaxRetries = 5"

text \<open>The errors of \<open>HandleShortURLRequest\<close>, one constructor for each \<open>fmt.Errorf\<close>:
  \<open>validation failed: %w\<close>, \<open>database lookup failed: %w\<close>, \<open>failed to save url: %w\<close>,
  \<open>failed to save url after %d attempts: %w\<close> and \<open>Failed to construct full short URL: %w\<close>.\<close>

datatype shorten_error =
    ValidationFailed validation_error
  | DatabaseLookupFailed dberror
  | FailedToSaveURL dberror
  | FailedToSaveAfterAttempts nat dberror
  | FailedToConstruct parse_error

definition isKeyChar :: "char \<Rightarrow> bool" where
  "isKeyChar c = (isUpper c \<or> isLower c \<or> isDigit c \<or> c = CHR ''-'' \<or> c = CHR ''_'')"

text \<open>
  \<open>url.JoinPath\<close> (standard library) parses the base, joins its path with the element by
  \<open>path.Join\<close>, and escapes the result. For the base of this program and an element made
  of key characters there is nothing to clean or to escape: the result is the base
  followed by the element. What the library makes of any other element depends on its
  version and is left unspecified.
\<close>

definition url_JoinPath :: "string \<Rightarrow> string \<Rightarrow> parse_error + string" where
  "url_JoinPath base elem =
     (if base = ''http://shan747.urs/'' \<and> elem \<noteq> [] \<and> list_all isKeyChar elem
      then Inr (base @ elem) else undefined)"

definition generateFullShortURL :: "string \<Rightarrow> shorten_error + string" where
  "generateFullShortURL shortKey =
     (let baseDomain = ''http://shan747.urs/''
      in case url_JoinPath baseDomain shortKey of
           Inl err \<Rightarrow> Inl (FailedToConstruct err)
         | Inr fullURL \<Rightarrow> Inr fullURL)"

text \<open>\<open>CheckDbForLongURL\<close>: the key, or the empty string when no row is found.\<close>

definition CheckDbForLongURL :: "database \<Rightarrow> string \<Rightarrow> (dberror + string) \<times> database" where
  "CheckDbForLongURL db longURL =
     (case sql_select_short_key db longURL of
        (Inl ErrNoRows, db') \<Rightarrow> (Inr '''', db')
      | (Inl (ScanFailed e), db') \<Rightarrow> (Inl e, db')
      | (Inr shortKey, db') \<Rightarrow> (Inr shortKey, db'))"

definition saveURLToDatabase :: "database \<Rightarrow> string \<Rightarrow> string \<Rightarrow> dberror option \<times> database" where
  "saveURLToDatabase db shortKey longURL = sql_insert_url db shortKey longURL"

text \<open>\<open>isCollisionError\<close>: a \<open>*pq.Error\<close> with code 23505.\<close>

definition isCollisionError :: "dberror option \<Rightarrow> bool" where
  "isCollisionError err =
     (case err of
        None \<Rightarrow> False
      | Some (PqError code _) \<Rightarrow> code = ''23505''
      | Some (DriverError _) \<Rightarrow> False)"

text \<open>What follows the loop of \<open>HandleShortURLRequest\<close>, for the last key and error.\<close>

definition after_loop ::
  "string \<Rightarrow> dberror option \<Rightarrow> database \<Rightarrow> (shorten_error + string) \<times> database" where
  "after_loop shortKey err db =
     (case err of
        Some e \<Rightarrow> (Inl (FailedToSaveAfterAttempts MaxRetries e), db)
      | None \<Rightarrow> (generateFullShortURL shortKey, db))"

text \<open>The loop \<open>for attempt := 0; attempt < MaxRetries; attempt++\<close>, with the variables
  \<open>shortKey\<close> and \<open>err\<close> it assigns.\<close>

function save_loop ::
  "string \<Rightarrow> nat \<Rightarrow> string \<Rightarrow> dberror option \<Rightarrow> database \<Rightarrow> (shorten_error + string) \<times> database"
where
  "save_loop longUrl attempt shortKey err db =
     (if attempt < MaxRetries then
        (case saveURLToDatabase db (generateShortURLKey longUrl (int attempt)) longUrl of
           (None, db') \<Rightarrow>
             after_loop (generateShortURLKey longUrl (int attempt)) None db'
         | (Some e, db') \<Rightarrow>
             if isCollisionError (Some e)
             then save_loop longUrl (Suc attempt)
                    (generateShortURLKey longUrl (int attempt)) (Some e) db'
             else (Inl (FailedToSaveURL e), db'))
      else after_loop shortKey err db)"
  by pat_completeness auto
termination
  by (relation "measure (\<lambda>(longUrl, attempt, shortKey, err, db). MaxRetries - attempt)") auto

declare save_loop.simps [simp del]

definition HandleShortURLRequest :: "database \<Rightarrow> string \<Rightarrow> (shorten_error + string) \<times> database" where
  "HandleShortURLRequest db longUrl =
     (case ValidateLongURL longUrl of
        Some err \<Rightarrow> (Inl (ValidationFailed err), db)
      | None \<Rightarrow>
          (case CheckDbForLongURL db longUrl of
             (Inl err, db') \<Rightarrow> (Inl (DatabaseLookupFailed err), db')
           | (Inr shortKey, db') \<Rightarrow>
               if shortKey \<noteq> '''' then (generateFullShortURL shortKey, db')
               else save_loop longUrl 0 shortKey None db'))"

section \<open>Resolution engine\<close>

text \<open>The errors of \<open>HandleRedirectRequest\<close>: \<open>invalid short key length\<close>,
  \<open>short URL not found\<close> and \<open>database query failed: %w\<close>.\<close>

datatype redirect_error = InvalidShortKeyLength | ShortURLNotFound | DatabaseQueryFailed dberror

definition HandleRedirectRequest :: "database \<Rightarrow> string \<Rightarrow> (redirect_error + string) \<times> database" where
  "HandleRedirectRequest db shortKey =
     (if length shortKey \<noteq> 7 then (Inl InvalidShortKeyLength, db)
      else
        (case sql_update_click_count db shortKey of
           (Inl ErrNoRows, db') \<Rightarrow> (Inl ShortURLNotFound, db')
         | (Inl (ScanFailed e), db') \<Rightarrow> (Inl (DatabaseQueryFailed e), db')
         | (Inr longURL, db') \<Rightarrow> (Inr longURL, db')))"

text \<open>\<open>err.Error()\<close> for these errors.\<close>

definition dberror_text :: "dberror \<Rightarrow> string" where
  "dberror_text e = (case e of PqError code msg \<Rightarrow> ''pq: '' @ msg | DriverError msg \<Rightarrow> msg)"

definition redirect_error_text :: "redirect_error \<Rightarrow> string" where
  "redirect_error_text e =
     (case e of
        InvalidShortKeyLength \<Rightarrow> ''invalid short key length''
      | ShortURLNotFound \<Rightarrow> ''short URL not found''
      | DatabaseQueryFailed d \<Rightarrow> ''database query failed: '' @ dberror_text d)"

text \<open>
  The request handler \<open>handleRedirect\<close> of \<open>main.go\<close>, as a function of the request path:
  an error response (\<open>http.Error\<close>, \<open>http.NotFound\<close>) with its text and status, or a redirect.
  Slicing an empty path panics. The source tests each rune of the key; a byte outside
  ASCII never decodes to an ASCII rune, so testing each byte is the same test.
\<close>

datatype http_response = HttpError string nat | HttpRedirect string nat | HandlerPanic

definition handleRedirect :: "database \<Rightarrow> string \<Rightarrow> http_response \<times> database" where
  "handleRedirect db path =
     (if HasPrefix path ''/api/'' then (HttpError ''404 page not found'' 404, db)
      else if path = [] then (HandlerPanic, db)
      else if drop 1 path = '''' then (HttpError ''short key required'' 404, db)
      else if \<not> list_all isKeyChar (drop 1 path)
        then (HttpError ''invalid short key format'' 400, db)
      else
        (case HandleRedirectRequest db (drop 1 path) of
           (Inl err, db') \<Rightarrow>
             (if Contains (redirect_error_text err) ''invalid short key length''
                then HttpError (redirect_error_text err) 400
              else if Contains (redirect_error_text err) ''not found''
                then HttpError (redirect_error_text err) 404
              else HttpError ''internal server error'' 500,
              db')
         | (Inr longURL, db') \<Rightarrow> (HttpRedirect longURL 302, db')))"

section \<open>Notions used in the statements\<close>

text \<open>
  The private ranges as the specification names them: an IPv4 address, given by its four
  octets, lies in \<open>net/bits\<close> when it agrees with \<open>net\<close> on the first \<open>bits\<close> bits. These
  definitions follow the specification, not the code; \<open>ValidateLongURL\<close> compares text.
\<close>

type_synonym ipv4 = "nat \<times> nat \<times> nat \<times> nat"

definition ipv4_value :: "ipv4 \<Rightarrow> nat" where
  "ipv4_value a = (case a of (a1, a2, a3, a4) \<Rightarrow> ((a1 * 256 + a2) * 256 + a3) * 256 + a4)"

definition in_cidr :: "ipv4 \<Rightarrow> ipv4 \<Rightarrow> nat \<Rightarrow> bool" where
  "in_cidr a net bits = (ipv4_value a div 2 ^ (32 - bits) = ipv4_value net div 2 ^ (32 - bits))"

definition spec_private_range :: "ipv4 \<Rightarrow> bool" where
  "spec_private_range a =
     (in_cidr a (10, 0, 0, 0) 8 \<or> in_cidr a (192, 168, 0, 0) 16 \<or> in_cidr a (172, 16, 0, 0) 12)"

definition dotted :: "ipv4 \<Rightarrow> string" where
  "dotted a =
     (case a of (a1, a2, a3, a4) \<Rightarrow> utoa a1 @ ''.'' @ utoa a2 @ ''.'' @ utoa a3 @ ''.'' @ utoa a4)"

text \<open>The store after \<open>create_table.sql\<close>, with no failure to come.\<close>

definition empty_db :: database where
  "empty_db = \<lparr>rows = [], faults = [], journal = []\<rparr>"

text \<open>The counters of the rows under a key, in table order.\<close>

definition clicks :: "database \<Rightarrow> string \<Rightarrow> int list" where
  "clicks db shortKey = map click_count (filter (\<lambda>r. short_key r = shortKey) (rows db))"

text \<open>\<open>n\<close> calls of \<open>HandleRedirectRequest\<close> for one key, one after the other: the results
  in order and the final store.\<close>

fun resolve_repeat :: "nat \<Rightarrow> database \<Rightarrow> string \<Rightarrow> (redirect_error + string) list \<times> database" where
  "resolve_repeat 0 db shortKey = ([], db)"
| "resolve_repeat (Suc n) db shortKey =
     (case HandleRedirectRequest db shortKey of
        (r, db1) \<Rightarrow>
          (case resolve_repeat n db1 shortKey of (rs, db2) \<Rightarrow> (r # rs, db2)))"

text \<open>The journal entries of consecutive insert attempts for a long URL, the first with
  salt \<open>a\<close>, given the outcome of each.\<close>

fun attempt_events :: "string \<Rightarrow> nat \<Rightarrow> dberror option list \<Rightarrow> db_event list" where
  "attempt_events longUrl a [] = []"
| "attempt_events longUrl a (r # rs) =
     InsertURL (generateShortURLKey longUrl (int a)) longUrl r # attempt_events longUrl (Suc a) rs"

text \<open>Every stored key is non-empty. The code only stores keys of the generator, which
  have 7 characters, so every store it builds from the empty one satisfies this.\<close>

definition keys_nonempty :: "database \<Rightarrow> bool" where
  "keys_nonempty db = list_all (\<lambda>r. short_key r \<noteq> []) (rows db)"

section \<open>Properties of the key generator\<close>

lemma length_digest_bytes: "length (digest_bytes h) = 32"
  by (induct h rule: digest_bytes.induct) (simp add: be32_bytes_def)

lemma length_sha256: "length (sha256 m) = 32"
  by (simp add: sha256_def length_digest_bytes)

lemma sextet_in_alphabet: "sextet v sh \<in> set encodeURL"
proof -
  have "drop_bit sh v AND 0x3F \<le> 0x3F"
    by (rule word_and_le1)
  then have "unat (drop_bit sh v AND 0x3F) \<le> 63"
    by (simp add: word_le_nat_alt)
  then have "unat (drop_bit sh v AND 0x3F) < length encodeURL"
    by (simp add: encodeURL_def)
  then show ?thesis
    unfolding sextet_def by (rule nth_mem)
qed

lemma length_EncodeToString: "length (EncodeToString bs) = 4 * ((length bs + 2) div 3)"
  by (induct bs rule: EncodeToString.induct) (simp_all, presburger)

lemma length_encoded_digest: "length (EncodeToString (sha256 m)) = 44"
  by (simp add: length_EncodeToString length_sha256)

lemma take7_digest_alphabet:
  "set (take 7 (EncodeToString (digest_bytes h))) \<subseteq> set encodeURL"
  by (induct h rule: digest_bytes.induct) (simp add: be32_bytes_def sextet_in_alphabet)

lemma list_all_isKeyChar_encodeURL: "list_all isKeyChar encodeURL"
  by (simp add: encodeURL_def isKeyChar_def isUpper_def isLower_def isDigit_def)

lemma alphabet_isKeyChar: "c \<in> set encodeURL \<Longrightarrow> isKeyChar c"
  using list_all_isKeyChar_encodeURL by (simp add: list_all_iff)

lemma generateShortURLKey_eq:
  "generateShortURLKey longUrl salt =
     take 7 (EncodeToString (sha256 (bytes_of longUrl @ bytes_of (CHR '':'' # itoa salt))))"
  by (simp add: generateShortURLKey_def sha256_New_def hasher_Write_def hasher_Sum_def
      length_encoded_digest)

lemma generateShortURLKey_unsalted_eq:
  "generateShortURLKey_unsalted longUrl = take 7 (EncodeToString (sha256 (bytes_of longUrl)))"
  by (simp add: generateShortURLKey_unsalted_def sha256_New_def hasher_Write_def hasher_Sum_def
      length_encoded_digest)

lemma length_generateShortURLKey: "length (generateShortURLKey longUrl salt) = 7"
  by (simp add: generateShortURLKey_eq length_encoded_digest)

lemma generateShortURLKey_alphabet: "set (generateShortURLKey longUrl salt) \<subseteq> set encodeURL"
  by (simp add: generateShortURLKey_eq sha256_def take7_digest_alphabet)

lemma generateShortURLKey_isKeyChar: "list_all isKeyChar (generateShortURLKey longUrl salt)"
  using generateShortURLKey_alphabet [of longUrl salt]
  by (auto simp add: list_all_iff alphabet_isKeyChar)

lemma generateShortURLKey_nonempty: "generateShortURLKey longUrl salt \<noteq> []"
  using length_generateShortURLKey [of longUrl salt] by auto

lemma itoa_0: "itoa 0 = ''0''"
  by code_simp

text \<open>
  Claim C9. For every input string and every salt, the generated key has exactly 7
  characters, each of the URL-safe base64 alphabet (so each passes the key test of the
  request handler). The digest has 32 bytes and its encoding 44 characters, so the branch
  returning \<open>encoded string too short\<close> is never taken.
\<close>

theorem C9_key_shape:
  "length (generateShortURLKey longUrl salt) = 7
   \<and> set (generateShortURLKey longUrl salt) \<subseteq> set encodeURL
   \<and> list_all isKeyChar (generateShortURLKey longUrl salt)
   \<and> length (sha256 (bytes_of longUrl @ bytes_of (CHR '':'' # itoa salt))) = 32
   \<and> length (EncodeToString (sha256 (bytes_of longUrl @ bytes_of (CHR '':'' # itoa salt)))) = 44
   \<and> generateShortURLKey longUrl salt \<noteq> ''encoded string too short''"
proof -
  have "length (generateShortURLKey longUrl salt) \<noteq> length ''encoded string too short''"
    by (simp add: length_generateShortURLKey)
  then have "generateShortURLKey longUrl salt \<noteq> ''encoded string too short''"
    by metis
  then show ?thesis
    by (simp add: length_generateShortURLKey generateShortURLKey_alphabet
        generateShortURLKey_isKeyChar length_sha256 length_encoded_digest)
qed

text \<open>
  Claim C3, amended. For every long URL and every salt, 0 included, the key is taken from
  the digest of the long URL followed by a colon and the decimal salt: it is the unsalted
  key of that longer string, and the suffix for salt 0 is \<open>:0\<close>.
\<close>

theorem C3_key_of_salted_url:
  "generateShortURLKey longUrl salt
     = take 7 (EncodeToString (sha256 (bytes_of (longUrl @ '':'' @ itoa salt))))
   \<and> generateShortURLKey longUrl salt = generateShortURLKey_unsalted (longUrl @ '':'' @ itoa salt)
   \<and> generateShortURLKey longUrl 0 = generateShortURLKey_unsalted (longUrl @ '':0'')"
  by (simp add: generateShortURLKey_eq generateShortURLKey_unsalted_eq bytes_of_def itoa_0)


lemma key_example_salted: "generateShortURLKey ''https://example.com/a'' 0 = ''ODAbUmv''"
  by code_simp

lemma key_example_unsalted: "generateShortURLKey_unsalted ''https://example.com/a'' = ''Lc4KTFB''"
  by code_simp

text \<open>
  Claim C3, as stated, fails: with salt 0 the generator still writes the suffix \<open>:0\<close>, and
  the key differs from the key of the raw URL (computed as the first draft of the
  generator did, with no salt).
\<close>

theorem C3_salt_zero_counterexample:
  "generateShortURLKey ''https://example.com/a'' 0
     \<noteq> generateShortURLKey_unsalted ''https://example.com/a''"
  by (simp add: key_example_salted key_example_unsalted)


section \<open>Properties of the validator\<close>

lemma ValidateLongURL_cases:
  "ValidateLongURL longURL =
     (if MaxURLLength < length longURL then Some (ExceedsMaximumLength MaxURLLength)
      else case url_Parse longURL of
        Inl err \<Rightarrow> Some (InvalidURLFormat err)
      | Inr u \<Rightarrow>
          if Scheme u \<noteq> ''http'' \<and> Scheme u \<noteq> ''https'' then Some SchemeNotHTTP
          else if ToLower (Hostname u) \<in> {''localhost'', ''127.0.0.1'', ''0.0.0.0'', ''::1''}
                  \<or> HasPrefix (ToLower (Hostname u)) ''127.''
                  \<or> HasPrefix (ToLower (Hostname u)) ''10.''
                  \<or> HasPrefix (ToLower (Hostname u)) ''192.168.''
                  \<or> HasPrefix (ToLower (Hostname u)) ''172.16.''
          then Some InternalOrPrivate else None)"
  unfolding ValidateLongURL_def Let_def
  by (simp split: sum.splits)

lemma parse_localhost_admin:
  "url_Parse ''http://localhost/admin''
     = Inr \<lparr>Scheme = ''http'', Opaque = '''', Host = ''localhost''\<rparr>"
  by code_simp

lemma validate_example_ok: "ValidateLongURL ''https://example.com/a'' = None"
  by code_simp

lemma validate_ftp_rejected: "ValidateLongURL ''ftp://example.com'' = Some SchemeNotHTTP"
  by code_simp

text \<open>
  Claim C4, as stated, fails: \<open>172.20.0.1\<close> lies in \<open>172.16.0.0/12\<close>, and a URL with this
  host is accepted.
\<close>

theorem C4_private_172_20_counterexample:
  "spec_private_range (172, 20, 0, 1)
   \<and> dotted (172, 20, 0, 1) = ''172.20.0.1''
   \<and> url_Parse ''http://172.20.0.1/''
       = Inr \<lparr>Scheme = ''http'', Opaque = '''', Host = ''172.20.0.1''\<rparr>
   \<and> Hostname \<lparr>Scheme = ''http'', Opaque = '''', Host = ''172.20.0.1''\<rparr> = ''172.20.0.1''
   \<and> ValidateLongURL ''http://172.20.0.1/'' = None"
proof -
  have "spec_private_range (172, 20, 0, 1)"
    by (simp add: spec_private_range_def in_cidr_def ipv4_value_def)
  moreover have "dotted (172, 20, 0, 1) = ''172.20.0.1''"
    by code_simp
  moreover have
    "url_Parse ''http://172.20.0.1/''
       = Inr \<lparr>Scheme = ''http'', Opaque = '''', Host = ''172.20.0.1''\<rparr>
     \<and> Hostname \<lparr>Scheme = ''http'', Opaque = '''', Host = ''172.20.0.1''\<rparr> = ''172.20.0.1''
     \<and> ValidateLongURL ''http://172.20.0.1/'' = None"
    by code_simp
  ultimately show ?thesis by simp
qed

text \<open>
  Claim C4, amended. A URL is rejected whenever it parses and its host name, in lower
  case, is \<open>localhost\<close>, \<open>127.0.0.1\<close>, \<open>0.0.0.0\<close> or \<open>::1\<close>, or begins with \<open>127.\<close>, \<open>10.\<close>,
  \<open>192.168.\<close> or \<open>172.16.\<close>. The error is the one for internal or private URLs, unless the
  URL is already rejected for its length or its scheme.
\<close>

theorem C4_listed_hosts_rejected:
  assumes "url_Parse longURL = Inr u"
    and "ToLower (Hostname u) \<in> {''localhost'', ''127.0.0.1'', ''0.0.0.0'', ''::1''}
         \<or> HasPrefix (ToLower (Hostname u)) ''127.''
         \<or> HasPrefix (ToLower (Hostname u)) ''10.''
         \<or> HasPrefix (ToLower (Hostname u)) ''192.168.''
         \<or> HasPrefix (ToLower (Hostname u)) ''172.16.''"
  shows "ValidateLongURL longURL \<in>
           {Some (ExceedsMaximumLength MaxURLLength), Some SchemeNotHTTP, Some InternalOrPrivate}"
  using assms unfolding ValidateLongURL_cases by simp

theorem C4_localhost_witness:
  "url_Parse ''http://localhost/admin''
     = Inr \<lparr>Scheme = ''http'', Opaque = '''', Host = ''localhost''\<rparr>
   \<and> ToLower (Hostname \<lparr>Scheme = ''http'', Opaque = '''', Host = ''localhost''\<rparr>) = ''localhost''
   \<and> ValidateLongURL ''http://localhost/admin'' = Some InternalOrPrivate"
proof -
  have h: "ToLower (Hostname \<lparr>Scheme = ''http'', Opaque = '''', Host = ''localhost''\<rparr>)
             = ''localhost''"
    by code_simp
  have "ValidateLongURL ''http://localhost/admin'' \<in>
          {Some (ExceedsMaximumLength MaxURLLength), Some SchemeNotHTTP, Some InternalOrPrivate}"
    by (rule C4_listed_hosts_rejected [OF parse_localhost_admin]) (simp add: h)
  moreover have "ValidateLongURL ''http://localhost/admin'' \<noteq> Some SchemeNotHTTP
      \<and> ValidateLongURL ''http://localhost/admin'' \<noteq> Some (ExceedsMaximumLength MaxURLLength)"
    by code_simp
  ultimately have "ValidateLongURL ''http://localhost/admin'' = Some InternalOrPrivate"
    by auto
  then show ?thesis
    using parse_localhost_admin h by simp
qed

text \<open>
  Claim C10. The inputs \<open>http://\<close> and \<open>http:///path\<close> parse with scheme \<open>http\<close> and an empty
  host, and the validator accepts both: the empty host name equals none of the listed
  names and has none of the listed prefixes.
\<close>

theorem C10_empty_host_accepted:
  "url_Parse ''http://'' = Inr \<lparr>Scheme = ''http'', Opaque = '''', Host = ''''\<rparr>
   \<and> ValidateLongURL ''http://'' = None
   \<and> url_Parse ''http:///path'' = Inr \<lparr>Scheme = ''http'', Opaque = '''', Host = ''''\<rparr>
   \<and> ValidateLongURL ''http:///path'' = None
   \<and> Hostname \<lparr>Scheme = ''http'', Opaque = '''', Host = ''''\<rparr> = ''''"
  by code_simp

section \<open>Properties of the store and the engines\<close>

lemma select_result:
  "fst (sql_select_short_key db u) =
     (case next_fault db of
        Some e \<Rightarrow> Inl (ScanFailed e)
      | None \<Rightarrow> (case find (\<lambda>r. long_url r = u) (rows db) of
                   None \<Rightarrow> Inl ErrNoRows | Some r \<Rightarrow> Inr (short_key r)))"
  by (simp add: sql_select_short_key_def Let_def)

lemma select_state:
  "snd (sql_select_short_key db u) =
     db\<lparr>faults := tl (faults db),
        journal := journal db @ [SelectShortKey u (fst (sql_select_short_key db u))]\<rparr>"
  by (simp add: sql_select_short_key_def Let_def)

lemma insert_result:
  "fst (sql_insert_url db k u) =
     (case next_fault db of
        Some e \<Rightarrow> Some e
      | None \<Rightarrow>
          if length k > 7
            then Some (PqError ''22001'' ''value too long for type character varying(7)'')
          else if list_ex (\<lambda>r. short_key r = k) (rows db)
            then Some (PqError ''23505'' ''duplicate key value violates unique constraint'')
          else None)"
  by (simp add: sql_insert_url_def Let_def)

lemma insert_state:
  "snd (sql_insert_url db k u) =
     db\<lparr>rows := (if fst (sql_insert_url db k u) = None
                  then rows db @ [\<lparr>short_key = k, long_url = u, click_count = 0\<rparr>]
                  else rows db),
        faults := tl (faults db),
        journal := journal db @ [InsertURL k u (fst (sql_insert_url db k u))]\<rparr>"
  by (simp add: sql_insert_url_def Let_def)

lemma update_result:
  "fst (sql_update_click_count db k) =
     (case next_fault db of
        Some e \<Rightarrow> Inl (ScanFailed e)
      | None \<Rightarrow>
          if list_ex (\<lambda>r. click_count r + 1 > 2147483647) (filter (\<lambda>r. short_key r = k) (rows db))
            then Inl (ScanFailed (PqError ''22003'' ''integer out of range''))
          else (case filter (\<lambda>r. short_key r = k) (rows db) of
                  [] \<Rightarrow> Inl ErrNoRows | r # _ \<Rightarrow> Inr (long_url r)))"
  by (simp add: sql_update_click_count_def Let_def)

lemma update_state:
  "snd (sql_update_click_count db k) =
     db\<lparr>rows := (case fst (sql_update_click_count db k) of
                    Inl (ScanFailed _) \<Rightarrow> rows db
                  | _ \<Rightarrow> map (bump_click k) (rows db)),
        faults := tl (faults db),
        journal := journal db @ [UpdateClickCount k (fst (sql_update_click_count db k))]\<rparr>"
  by (simp add: sql_update_click_count_def Let_def)

lemma filter_bump_same:
  "filter (\<lambda>r. short_key r = k) (map (bump_click k) rs)
     = map (bump_click k) (filter (\<lambda>r. short_key r = k) rs)"
  by (induct rs) (simp_all add: bump_click_def)

lemma clicks_bump_same:
  "map click_count (filter (\<lambda>r. short_key r = k) (map (bump_click k) rs))
     = map (\<lambda>c. c + 1) (map click_count (filter (\<lambda>r. short_key r = k) rs))"
  by (induct rs) (simp_all add: bump_click_def)

lemma clicks_bump_other:
  "k' \<noteq> k \<Longrightarrow>
   map click_count (filter (\<lambda>r. short_key r = k') (map (bump_click k) rs))
     = map click_count (filter (\<lambda>r. short_key r = k') rs)"
  by (induct rs) (simp_all add: bump_click_def)

lemma bump_no_hit:
  "filter (\<lambda>r. short_key r = k) rs = [] \<Longrightarrow> map (bump_click k) rs = rs"
  by (induct rs) (simp_all add: bump_click_def split: if_splits)

lemma keys_bump: "map short_key (map (bump_click k) rs) = map short_key rs"
  by (induct rs) (simp_all add: bump_click_def)

lemma urls_bump: "map long_url (map (bump_click k) rs) = map long_url rs"
  by (induct rs) (simp_all add: bump_click_def)

lemma bump_monotone:
  "list_all2 (\<lambda>r r'. click_count r \<le> click_count r' \<and> click_count r' \<le> click_count r + 1)
     rs (map (bump_click k) rs)"
  by (induct rs) (simp_all add: bump_click_def)

lemma same_monotone:
  "list_all2 (\<lambda>r r'. click_count r \<le> click_count r' \<and> click_count r' \<le> click_count r + 1)
     rs rs"
  by (induct rs) simp_all

lemma find_filter_hd:
  "find P rs = (case filter P rs of [] \<Rightarrow> None | r # _ \<Rightarrow> Some r)"
  by (induct rs) simp_all

text \<open>What \<open>HandleRedirectRequest\<close> does, by the outcome of the statement.\<close>

lemma redirect_wrong_length:
  "length k \<noteq> 7 \<Longrightarrow> HandleRedirectRequest db k = (Inl InvalidShortKeyLength, db)"
  by (simp add: HandleRedirectRequest_def)

lemma redirect_result:
  "length k = 7 \<Longrightarrow>
   fst (HandleRedirectRequest db k) =
     (case fst (sql_update_click_count db k) of
        Inl ErrNoRows \<Rightarrow> Inl ShortURLNotFound
      | Inl (ScanFailed e) \<Rightarrow> Inl (DatabaseQueryFailed e)
      | Inr u \<Rightarrow> Inr u)"
  by (simp add: HandleRedirectRequest_def split: prod.splits sum.splits scan_error.splits)

lemma redirect_state:
  "length k = 7 \<Longrightarrow> snd (HandleRedirectRequest db k) = snd (sql_update_click_count db k)"
  by (simp add: HandleRedirectRequest_def split: prod.splits sum.splits scan_error.splits)

lemma redirect_success:
  assumes "HandleRedirectRequest db k = (Inr u, db')"
  shows "length k = 7"
    and "fst (sql_update_click_count db k) = Inr u"
    and "db' = snd (sql_update_click_count db k)"
proof -
  show len: "length k = 7"
    using assms by (auto simp add: HandleRedirectRequest_def split: if_splits)
  have "fst (HandleRedirectRequest db k) = Inr u"
    using assms by simp
  then show "fst (sql_update_click_count db k) = Inr u"
    using len by (simp add: redirect_result split: sum.splits scan_error.splits)
  show "db' = snd (sql_update_click_count db k)"
    using assms redirect_state [OF len, of db] by simp
qed

lemma update_success_rows:
  assumes "fst (sql_update_click_count db k) = Inr u"
  shows "rows (snd (sql_update_click_count db k)) = map (bump_click k) (rows db)"
    and "journal (snd (sql_update_click_count db k)) = journal db @ [UpdateClickCount k (Inr u)]"
    and "\<exists>r. find (\<lambda>r. short_key r = k) (rows db) = Some r \<and> long_url r = u"
proof -
  show "rows (snd (sql_update_click_count db k)) = map (bump_click k) (rows db)"
    by (simp add: update_state assms)
  show "journal (snd (sql_update_click_count db k)) = journal db @ [UpdateClickCount k (Inr u)]"
    by (simp add: update_state assms)
  show "\<exists>r. find (\<lambda>r. short_key r = k) (rows db) = Some r \<and> long_url r = u"
    using assms
    by (auto simp add: update_result find_filter_hd
        split: option.splits if_splits list.splits)
qed

lemma redirect_rows_cases:
  "rows (snd (HandleRedirectRequest db k)) = rows db
   \<or> rows (snd (HandleRedirectRequest db k)) = map (bump_click k) (rows db)"
proof (cases "length k = 7")
  case True
  then show ?thesis
    by (simp add: redirect_state update_state split: sum.splits scan_error.splits)
next
  case False
  then show ?thesis by (simp add: redirect_wrong_length)
qed

lemma redirect_failure_rows:
  assumes "fst (HandleRedirectRequest db k) = Inl e"
  shows "rows (snd (HandleRedirectRequest db k)) = rows db"
proof (cases "length k = 7")
  case False
  then show ?thesis by (simp add: redirect_wrong_length)
next
  case True
  show ?thesis
  proof (cases "fst (sql_update_click_count db k)")
    case (Inr u)
    then show ?thesis
      using assms True by (simp add: redirect_result)
  next
    case (Inl se)
    show ?thesis
    proof (cases se)
      case (ScanFailed d)
      then show ?thesis
        using Inl True by (simp add: redirect_state update_state)
    next
      case ErrNoRows
      then have "filter (\<lambda>r. short_key r = k) (rows db) = []"
        using Inl by (auto simp add: update_result split: option.splits if_splits list.splits)
      then show ?thesis
        using Inl ErrNoRows True by (simp add: redirect_state update_state bump_no_hit)
    qed
  qed
qed

lemma bump_keeps:
  "short_key (bump_click k r) = short_key r"
  "long_url (bump_click k r) = long_url r"
  by (simp_all add: bump_click_def)

lemma redirect_success_clicks:
  assumes "HandleRedirectRequest db k = (Inr u, db')"
  shows "clicks db' k = map (\<lambda>c. c + 1) (clicks db k)"
    and "k' \<noteq> k \<Longrightarrow> clicks db' k' = clicks db k'"
    and "rows db' = map (bump_click k) (rows db)"
proof -
  note s = redirect_success [OF assms]
  show r: "rows db' = map (bump_click k) (rows db)"
    using s by (simp add: update_success_rows)
  show "clicks db' k = map (\<lambda>c. c + 1) (clicks db k)"
    by (simp add: clicks_def r clicks_bump_same)
  show "k' \<noteq> k \<Longrightarrow> clicks db' k' = clicks db k'"
    by (simp add: clicks_def r clicks_bump_other)
qed

lemma resolve_repeat_clicks:
  "list_all (\<lambda>r. \<not> isl r) (fst (resolve_repeat n db k)) \<Longrightarrow>
   clicks (snd (resolve_repeat n db k)) k = map (\<lambda>c. c + int n) (clicks db k)"
proof (induction n arbitrary: db)
  case 0
  then show ?case by simp
next
  case (Suc n)
  obtain r db1 where first: "HandleRedirectRequest db k = (r, db1)"
    by (cases "HandleRedirectRequest db k")
  obtain rs db2 where rest: "resolve_repeat n db1 k = (rs, db2)"
    by (cases "resolve_repeat n db1 k")
  from Suc.prems first rest have ok: "\<not> isl r" and oks: "list_all (\<lambda>r. \<not> isl r) rs"
    by simp_all
  from ok obtain u where "r = Inr u"
    by (cases r) simp_all
  with first have "clicks db1 k = map (\<lambda>c. c + 1) (clicks db k)"
    by (simp add: redirect_success_clicks)
  moreover from Suc.IH [of db1] oks rest
  have "clicks db2 k = map (\<lambda>c. c + int n) (clicks db1 k)"
    by simp
  ultimately show ?case
    using first rest by (simp add: comp_def add.assoc add.commute)
qed

lemma redirect_not_found:
  assumes "length k = 7" and "next_fault db = None" and "clicks db k = []"
  shows "HandleRedirectRequest db k =
           (Inl ShortURLNotFound,
            db\<lparr>faults := tl (faults db),
               journal := journal db @ [UpdateClickCount k (Inl ErrNoRows)]\<rparr>)"
proof -
  have none: "filter (\<lambda>r. short_key r = k) (rows db) = []"
    using assms(3) by (simp add: clicks_def)
  have res: "fst (sql_update_click_count db k) = Inl ErrNoRows"
    by (simp add: update_result assms(2) none)
  have "snd (sql_update_click_count db k) =
          db\<lparr>faults := tl (faults db),
             journal := journal db @ [UpdateClickCount k (Inl ErrNoRows)]\<rparr>"
    by (simp add: update_state res bump_no_hit [OF none])
  then show ?thesis
    using redirect_result [OF assms(1), of db] redirect_state [OF assms(1), of db] res
    by (simp add: prod_eq_iff)
qed

lemma redirect_found:
  assumes "length k = 7" and "next_fault db = None"
    and "find (\<lambda>r. short_key r = k) (rows db) = Some r"
    and "list_all (\<lambda>c. c < 2147483647) (clicks db k)"
  shows "fst (HandleRedirectRequest db k) = Inr (long_url r)"
proof -
  have "\<not> list_ex (\<lambda>r. click_count r + 1 > 2147483647) (filter (\<lambda>r. short_key r = k) (rows db))"
    using assms(4) by (auto simp add: clicks_def list_all_iff list_ex_iff)
  moreover obtain rs where "filter (\<lambda>r. short_key r = k) (rows db) = r # rs"
    using assms(3) by (auto simp add: find_filter_hd split: list.splits)
  ultimately have "fst (sql_update_click_count db k) = Inr (long_url r)"
    by (simp add: update_result assms(2))
  then show ?thesis
    by (simp add: redirect_result [OF assms(1)])
qed

text \<open>
  Claim C2. A successful \<open>HandleRedirectRequest\<close> is for a 7-character key with a row in
  the table and returns the long URL of that row; it adds exactly 1 to each counter under
  the key and leaves the counters of other keys, all keys and all long URLs as they were,
  with a single statement in the journal. After \<open>n\<close> calls in a row that all succeed the
  counters under the key are \<open>n\<close> higher. With no failure of the store, a key with a row
  whose counters are below the largest 32-bit value is resolved, and a 7-character key
  with no row gets the not-found error, which is not the error for a failed query.
\<close>

theorem C2_resolve_counts_clicks:
  "(HandleRedirectRequest db shortKey = (Inr longURL, db') \<longrightarrow>
      length shortKey = 7
      \<and> (\<exists>r. find (\<lambda>r. short_key r = shortKey) (rows db) = Some r \<and> long_url r = longURL)
      \<and> clicks db' shortKey = map (\<lambda>c. c + 1) (clicks db shortKey)
      \<and> (\<forall>k. k \<noteq> shortKey \<longrightarrow> clicks db' k = clicks db k)
      \<and> map short_key (rows db') = map short_key (rows db)
      \<and> map long_url (rows db') = map long_url (rows db)
      \<and> journal db' = journal db @ [UpdateClickCount shortKey (Inr longURL)])
   \<and> (list_all (\<lambda>r. \<not> isl r) (fst (resolve_repeat n db shortKey)) \<longrightarrow>
        clicks (snd (resolve_repeat n db shortKey)) shortKey
          = map (\<lambda>c. c + int n) (clicks db shortKey))
   \<and> (length shortKey = 7 \<and> next_fault db = None
        \<and> find (\<lambda>r. short_key r = shortKey) (rows db) = Some row
        \<and> list_all (\<lambda>c. c < 2147483647) (clicks db shortKey) \<longrightarrow>
        fst (HandleRedirectRequest db shortKey) = Inr (long_url row))
   \<and> (length shortKey = 7 \<and> next_fault db = None \<and> clicks db shortKey = [] \<longrightarrow>
        HandleRedirectRequest db shortKey =
          (Inl ShortURLNotFound,
           db\<lparr>faults := tl (faults db),
              journal := journal db @ [UpdateClickCount shortKey (Inl ErrNoRows)]\<rparr>))
   \<and> ShortURLNotFound \<noteq> DatabaseQueryFailed e
   \<and> ShortURLNotFound \<noteq> InvalidShortKeyLength"
proof -
  have "length shortKey = 7
      \<and> (\<exists>r. find (\<lambda>r. short_key r = shortKey) (rows db) = Some r \<and> long_url r = longURL)
      \<and> clicks db' shortKey = map (\<lambda>c. c + 1) (clicks db shortKey)
      \<and> (\<forall>k. k \<noteq> shortKey \<longrightarrow> clicks db' k = clicks db k)
      \<and> map short_key (rows db') = map short_key (rows db)
      \<and> map long_url (rows db') = map long_url (rows db)
      \<and> journal db' = journal db @ [UpdateClickCount shortKey (Inr longURL)]"
    if ok: "HandleRedirectRequest db shortKey = (Inr longURL, db')"
  proof -
    note s = redirect_success [OF ok]
    note c = redirect_success_clicks [OF ok]
    have "journal db' = journal db @ [UpdateClickCount shortKey (Inr longURL)]"
      using s by (simp add: update_success_rows)
    moreover have "\<exists>r. find (\<lambda>r. short_key r = shortKey) (rows db) = Some r \<and> long_url r = longURL"
      using s(2) by (rule update_success_rows)
    ultimately show ?thesis
      using s(1) c by (simp add: bump_keeps)
  qed
  then show ?thesis
    using resolve_repeat_clicks [of n db shortKey] redirect_found [of shortKey db row]
      redirect_not_found [of shortKey db]
    by simp
qed

theorem C2_resolve_witness:
  "HandleRedirectRequest
     \<lparr>rows = [\<lparr>short_key = ''abc123X'', long_url = ''https://example.com/a'', click_count = 4\<rparr>],
      faults = [], journal = []\<rparr> ''abc123X''
   = (Inr ''https://example.com/a'',
      \<lparr>rows = [\<lparr>short_key = ''abc123X'', long_url = ''https://example.com/a'', click_count = 5\<rparr>],
       faults = [], journal = [UpdateClickCount ''abc123X'' (Inr ''https://example.com/a'')]\<rparr>)
   \<and> clicks
        \<lparr>rows = [\<lparr>short_key = ''abc123X'', long_url = ''https://example.com/a'', click_count = 5\<rparr>],
         faults = [], journal = [UpdateClickCount ''abc123X'' (Inr ''https://example.com/a'')]\<rparr>
        ''abc123X'' = [5]
   \<and> clicks (snd (resolve_repeat (Suc (Suc 0))
        \<lparr>rows = [\<lparr>short_key = ''abc123X'', long_url = ''https://example.com/a'', click_count = 4\<rparr>],
         faults = [], journal = []\<rparr> ''abc123X'')) ''abc123X'' = [6]
   \<and> HandleRedirectRequest empty_db ''abc123X''
       = (Inl ShortURLNotFound,
          \<lparr>rows = [], faults = [], journal = [UpdateClickCount ''abc123X'' (Inl ErrNoRows)]\<rparr>)"
proof -
  let ?k = "''abc123X''"
  let ?u = "''https://example.com/a''"
  let ?r = "\<lparr>short_key = ?k, long_url = ?u, click_count = 4\<rparr>"
  let ?db = "\<lparr>rows = [?r], faults = [], journal = []\<rparr>"
  let ?db' = "\<lparr>rows = [\<lparr>short_key = ?k, long_url = ?u, click_count = 5\<rparr>],
       faults = [], journal = [UpdateClickCount ?k (Inr ?u)]\<rparr>"
  have run: "HandleRedirectRequest ?db ?k = (Inr ?u, ?db')"
    by (simp add: HandleRedirectRequest_def sql_update_click_count_def next_fault_def
        bump_click_def Let_def)
  have old: "clicks ?db ?k = [4]"
    by (simp add: clicks_def)
  have twice: "list_all (\<lambda>r. \<not> isl r) (fst (resolve_repeat (Suc (Suc 0)) ?db ?k))"
    by (simp add: HandleRedirectRequest_def sql_update_click_count_def next_fault_def
        bump_click_def Let_def)
  have pre: "length ?k = 7 \<and> next_fault empty_db = None \<and> clicks empty_db ?k = []"
    by (simp add: next_fault_def empty_db_def clicks_def)
  note inst = C2_resolve_counts_clicks [of "?db" "?k" "?u" "?db'" "Suc (Suc 0)" "?r" "DriverError []"]
  note inst0 = C2_resolve_counts_clicks [of empty_db "?k" "?u" "?db'" 0 "?r" "DriverError []"]
  from inst [THEN conjunct1] run have "clicks ?db' ?k = map (\<lambda>c. c + 1) (clicks ?db ?k)"
    by blast
  with old have one: "clicks ?db' ?k = [5]"
    by simp
  from inst [THEN conjunct2, THEN conjunct1] twice
  have "clicks (snd (resolve_repeat (Suc (Suc 0)) ?db ?k)) ?k
          = map (\<lambda>c. c + int (Suc (Suc 0))) (clicks ?db ?k)"
    by blast
  with old have two: "clicks (snd (resolve_repeat (Suc (Suc 0)) ?db ?k)) ?k = [6]"
    by simp
  from inst0 [THEN conjunct2, THEN conjunct2, THEN conjunct2, THEN conjunct1] pre
  have "HandleRedirectRequest empty_db ?k =
          (Inl ShortURLNotFound,
           empty_db\<lparr>faults := tl (faults empty_db),
              journal := journal empty_db @ [UpdateClickCount ?k (Inl ErrNoRows)]\<rparr>)"
    by blast
  then have none: "HandleRedirectRequest empty_db ?k
       = (Inl ShortURLNotFound,
          \<lparr>rows = [], faults = [], journal = [UpdateClickCount ?k (Inl ErrNoRows)]\<rparr>)"
    by (simp add: empty_db_def)
  from run one two none show ?thesis
    by simp
qed

section \<open>Properties of the shortening engine\<close>

lemma MaxRetries_pos: "0 < MaxRetries"
  by (simp add: MaxRetries_def)

lemma save_loop_step:
  "a < MaxRetries \<Longrightarrow>
   save_loop u a k err db =
     (case fst (sql_insert_url db (generateShortURLKey u (int a)) u) of
        None \<Rightarrow>
          (generateFullShortURL (generateShortURLKey u (int a)),
           snd (sql_insert_url db (generateShortURLKey u (int a)) u))
      | Some e \<Rightarrow>
          if isCollisionError (Some e)
          then save_loop u (Suc a) (generateShortURLKey u (int a)) (Some e)
                 (snd (sql_insert_url db (generateShortURLKey u (int a)) u))
          else (Inl (FailedToSaveURL e),
                snd (sql_insert_url db (generateShortURLKey u (int a)) u)))"
  by (subst save_loop.simps)
     (simp add: saveURLToDatabase_def after_loop_def split: prod.splits option.splits)

lemma save_loop_done:
  "\<not> a < MaxRetries \<Longrightarrow> save_loop u a k err db = after_loop k err db"
  by (subst save_loop.simps) simp

text \<open>The loop from attempt \<open>a\<close> on: the outcomes of the inserts it makes determine the
  journal, the table and the result.\<close>

lemma save_loop_trace:
  assumes "a < MaxRetries"
  shows "\<exists>outcomes.
           outcomes \<noteq> [] \<and> a + length outcomes \<le> MaxRetries
         \<and> journal (snd (save_loop u a k err db)) = journal db @ attempt_events u a outcomes
         \<and> faults (snd (save_loop u a k err db)) = drop (length outcomes) (faults db)
         \<and> list_all isCollisionError (butlast outcomes)
         \<and> (case last outcomes of
               None \<Rightarrow>
                 fst (save_loop u a k err db)
                   = generateFullShortURL (generateShortURLKey u (int (a + length outcomes - 1)))
                 \<and> rows (snd (save_loop u a k err db))
                   = rows db @ [\<lparr>short_key = generateShortURLKey u (int (a + length outcomes - 1)),
                                 long_url = u, click_count = 0\<rparr>]
             | Some e \<Rightarrow>
                 rows (snd (save_loop u a k err db)) = rows db
                 \<and> (if isCollisionError (Some e)
                    then a + length outcomes = MaxRetries
                         \<and> fst (save_loop u a k err db)
                             = Inl (FailedToSaveAfterAttempts MaxRetries e)
                    else fst (save_loop u a k err db) = Inl (FailedToSaveURL e)))"
  using assms
proof (induction "MaxRetries - a" arbitrary: a k err db)
  case 0
  then show ?case by simp
next
  case (Suc d)
  let ?key = "generateShortURLKey u (int a)"
  let ?r = "fst (sql_insert_url db ?key u)"
  let ?db1 = "snd (sql_insert_url db ?key u)"
  have j1: "journal ?db1 = journal db @ [InsertURL ?key u ?r]"
    and f1: "faults ?db1 = tl (faults db)"
    by (simp_all add: insert_state)
  note step = save_loop_step [OF Suc.prems, of u k err db]
  show ?case
  proof (cases ?r)
    case None
    then have "fst (save_loop u a k err db) = generateFullShortURL ?key"
      and "snd (save_loop u a k err db) = ?db1"
      using step by simp_all
    moreover have "rows ?db1 = rows db @ [\<lparr>short_key = ?key, long_url = u, click_count = 0\<rparr>]"
      using None by (simp add: insert_state)
    ultimately show ?thesis
      using None j1 f1 Suc.prems
      by (intro exI [of _ "[None]"]) (simp add: drop_Suc)
  next
    case (Some e)
    then have rows1: "rows ?db1 = rows db"
      by (simp add: insert_state)
    show ?thesis
    proof (cases "isCollisionError (Some e)")
      case False
      then have "fst (save_loop u a k err db) = Inl (FailedToSaveURL e)"
        and "snd (save_loop u a k err db) = ?db1"
        using step Some by simp_all
      then show ?thesis
        using Some False j1 f1 rows1 Suc.prems
        by (intro exI [of _ "[Some e]"]) (simp add: drop_Suc)
    next
      case True
      then have next_call: "save_loop u a k err db = save_loop u (Suc a) ?key (Some e) ?db1"
        using step Some by simp
      show ?thesis
      proof (cases "Suc a < MaxRetries")
        case False
        then have last_attempt: "Suc a = MaxRetries"
          using Suc.prems by simp
        have "save_loop u (Suc a) ?key (Some e) ?db1
                = (Inl (FailedToSaveAfterAttempts MaxRetries e), ?db1)"
          using False by (simp add: save_loop_done after_loop_def)
        then show ?thesis
          using next_call Some True j1 f1 rows1 last_attempt
          by (intro exI [of _ "[Some e]"]) (simp add: drop_Suc)
      next
        case less: True
        have "d = MaxRetries - Suc a"
          using Suc.hyps(2) by simp
        from Suc.hyps(1) [OF this less, of ?key "Some e" ?db1]
        obtain outcomes where o:
          "outcomes \<noteq> []" "Suc a + length outcomes \<le> MaxRetries"
          "journal (snd (save_loop u (Suc a) ?key (Some e) ?db1))
             = journal ?db1 @ attempt_events u (Suc a) outcomes"
          "faults (snd (save_loop u (Suc a) ?key (Some e) ?db1))
             = drop (length outcomes) (faults ?db1)"
          "list_all isCollisionError (butlast outcomes)"
          "(case last outcomes of
               None \<Rightarrow>
                 fst (save_loop u (Suc a) ?key (Some e) ?db1)
                   = generateFullShortURL
                       (generateShortURLKey u (int (Suc a + length outcomes - 1)))
                 \<and> rows (snd (save_loop u (Suc a) ?key (Some e) ?db1))
                   = rows ?db1
                     @ [\<lparr>short_key = generateShortURLKey u (int (Suc a + length outcomes - 1)),
                         long_url = u, click_count = 0\<rparr>]
             | Some e' \<Rightarrow>
                 rows (snd (save_loop u (Suc a) ?key (Some e) ?db1)) = rows ?db1
                 \<and> (if isCollisionError (Some e')
                    then Suc a + length outcomes = MaxRetries
                         \<and> fst (save_loop u (Suc a) ?key (Some e) ?db1)
                             = Inl (FailedToSaveAfterAttempts MaxRetries e')
                    else fst (save_loop u (Suc a) ?key (Some e) ?db1)
                           = Inl (FailedToSaveURL e')))"
          by blast
        have idx: "a + length (Some e # outcomes) - 1 = Suc a + length outcomes - 1"
          using o(1) by simp
        show ?thesis
          using o next_call Some True j1 f1 rows1
          by (intro exI [of _ "Some e # outcomes"])
             (auto simp add: drop_Suc idx drop_tl split: option.splits if_splits)
      qed
    qed
  qed
qed

lemma validate_ok_request:
  "ValidateLongURL u = None \<Longrightarrow>
   HandleShortURLRequest db u =
     (case fst (sql_select_short_key db u) of
        Inl ErrNoRows \<Rightarrow> save_loop u 0 '''' None (snd (sql_select_short_key db u))
      | Inl (ScanFailed e) \<Rightarrow> (Inl (DatabaseLookupFailed e), snd (sql_select_short_key db u))
      | Inr k \<Rightarrow>
          if k \<noteq> '''' then (generateFullShortURL k, snd (sql_select_short_key db u))
          else save_loop u 0 '''' None (snd (sql_select_short_key db u)))"
  by (simp add: HandleShortURLRequest_def CheckDbForLongURL_def
      split: prod.splits sum.splits scan_error.splits)

lemma check_nothing_found:
  "CheckDbForLongURL db u = (Inr '''', db1) \<Longrightarrow>
   db1 = snd (sql_select_short_key db u)
   \<and> (fst (sql_select_short_key db u) = Inl ErrNoRows \<or> fst (sql_select_short_key db u) = Inr '''')"
  by (auto simp add: CheckDbForLongURL_def split: prod.splits sum.splits scan_error.splits)

text \<open>The inserts of a call whose lookup found nothing, in terms of \<open>isCollisionError\<close>.\<close>

lemma shorten_retry_trace:
  assumes "ValidateLongURL longUrl = None"
    and "CheckDbForLongURL db longUrl = (Inr '''', db1)"
  shows "\<exists>outcomes.
           1 \<le> length outcomes \<and> length outcomes \<le> 5
         \<and> journal (snd (HandleShortURLRequest db longUrl))
             = journal db1 @ attempt_events longUrl 0 outcomes
         \<and> list_all isCollisionError (butlast outcomes)
         \<and> (case last outcomes of
               None \<Rightarrow>
                 fst (HandleShortURLRequest db longUrl)
                   = generateFullShortURL
                       (generateShortURLKey longUrl (int (length outcomes - 1)))
             | Some e \<Rightarrow>
                 if isCollisionError (Some e)
                 then length outcomes = 5
                      \<and> fst (HandleShortURLRequest db longUrl)
                          = Inl (FailedToSaveAfterAttempts 5 e)
                 else fst (HandleShortURLRequest db longUrl) = Inl (FailedToSaveURL e))"
proof -
  from check_nothing_found [OF assms(2)]
  have run: "HandleShortURLRequest db longUrl = save_loop longUrl 0 '''' None db1"
    using validate_ok_request [OF assms(1), of db] by auto
  from save_loop_trace [OF MaxRetries_pos, of longUrl "''''" None db1]
  obtain outcomes where o:
    "outcomes \<noteq> []" "0 + length outcomes \<le> MaxRetries"
    "journal (snd (save_loop longUrl 0 '''' None db1))
       = journal db1 @ attempt_events longUrl 0 outcomes"
    "list_all isCollisionError (butlast outcomes)"
    "(case last outcomes of
         None \<Rightarrow>
           fst (save_loop longUrl 0 '''' None db1)
             = generateFullShortURL (generateShortURLKey longUrl (int (0 + length outcomes - 1)))
           \<and> rows (snd (save_loop longUrl 0 '''' None db1))
             = rows db1 @ [\<lparr>short_key = generateShortURLKey longUrl (int (0 + length outcomes - 1)),
                            long_url = longUrl, click_count = 0\<rparr>]
       | Some e \<Rightarrow>
           rows (snd (save_loop longUrl 0 '''' None db1)) = rows db1
           \<and> (if isCollisionError (Some e)
              then 0 + length outcomes = MaxRetries
                   \<and> fst (save_loop longUrl 0 '''' None db1)
                       = Inl (FailedToSaveAfterAttempts MaxRetries e)
              else fst (save_loop longUrl 0 '''' None db1) = Inl (FailedToSaveURL e)))"
    by blast
  have "1 \<le> length outcomes"
    using o(1) by (cases outcomes) simp_all
  then show ?thesis
    using o run
    by (intro exI [of _ outcomes]) (auto simp add: MaxRetries_def split: option.splits if_splits)
qed

lemma isCollisionError_iff:
  "isCollisionError r = (\<exists>msg. r = Some (PqError ''23505'' msg))"
  by (auto simp add: isCollisionError_def split: option.splits dberror.splits)

text \<open>
  Claim C5. When the lookup finds nothing, \<open>HandleShortURLRequest\<close> makes between 1 and 5
  inserts, with the keys of the salts 0, 1, 2, ... in this order, and no other statement.
  Every insert but the last failed with a PostgreSQL error of code 23505. The last one
  decides the result: a success returns the short URL of its key; a PostgreSQL error of
  any other code, and any error that is no PostgreSQL error, is returned at once as the
  save error; an error of code 23505 at the last insert means that all 5 attempts
  collided, and the error names the 5 attempts. \<open>isCollisionError\<close> accepts exactly the
  PostgreSQL errors of code 23505.
\<close>

theorem C5_bounded_retry:
  assumes "ValidateLongURL longUrl = None"
    and "CheckDbForLongURL db longUrl = (Inr '''', db1)"
  shows "(\<exists>outcomes.
           1 \<le> length outcomes \<and> length outcomes \<le> 5
         \<and> journal (snd (HandleShortURLRequest db longUrl))
             = journal db1 @ attempt_events longUrl 0 outcomes
         \<and> list_all (\<lambda>r. \<exists>msg. r = Some (PqError ''23505'' msg)) (butlast outcomes)
         \<and> (case last outcomes of
               None \<Rightarrow>
                 fst (HandleShortURLRequest db longUrl)
                   = generateFullShortURL
                       (generateShortURLKey longUrl (int (length outcomes - 1)))
             | Some (PqError code msg) \<Rightarrow>
                 if code = ''23505''
                 then length outcomes = 5
                      \<and> fst (HandleShortURLRequest db longUrl)
                          = Inl (FailedToSaveAfterAttempts 5 (PqError code msg))
                 else fst (HandleShortURLRequest db longUrl)
                        = Inl (FailedToSaveURL (PqError code msg))
             | Some (DriverError msg) \<Rightarrow>
                 fst (HandleShortURLRequest db longUrl)
                   = Inl (FailedToSaveURL (DriverError msg))))
         \<and> (\<forall>code msg. isCollisionError (Some (PqError code msg)) = (code = ''23505''))
         \<and> (\<forall>msg. \<not> isCollisionError (Some (DriverError msg)))
         \<and> \<not> isCollisionError None"
proof -
  from shorten_retry_trace [OF assms] obtain outcomes where o:
    "1 \<le> length outcomes" "length outcomes \<le> 5"
    "journal (snd (HandleShortURLRequest db longUrl))
       = journal db1 @ attempt_events longUrl 0 outcomes"
    "list_all isCollisionError (butlast outcomes)"
    "(case last outcomes of
         None \<Rightarrow>
           fst (HandleShortURLRequest db longUrl)
             = generateFullShortURL
                 (generateShortURLKey longUrl (int (length outcomes - 1)))
       | Some e \<Rightarrow>
           if isCollisionError (Some e)
           then length outcomes = 5
                \<and> fst (HandleShortURLRequest db longUrl)
                    = Inl (FailedToSaveAfterAttempts 5 e)
           else fst (HandleShortURLRequest db longUrl) = Inl (FailedToSaveURL e))"
    by blast
  have early: "list_all (\<lambda>r. \<exists>msg. r = Some (PqError ''23505'' msg)) (butlast outcomes)"
    using o(4) by (simp add: list_all_iff isCollisionError_iff)
  have final:
    "(case last outcomes of
         None \<Rightarrow>
           fst (HandleShortURLRequest db longUrl)
             = generateFullShortURL
                 (generateShortURLKey longUrl (int (length outcomes - 1)))
       | Some (PqError code msg) \<Rightarrow>
           if code = ''23505''
           then length outcomes = 5
                \<and> fst (HandleShortURLRequest db longUrl)
                    = Inl (FailedToSaveAfterAttempts 5 (PqError code msg))
           else fst (HandleShortURLRequest db longUrl)
                  = Inl (FailedToSaveURL (PqError code msg))
       | Some (DriverError msg) \<Rightarrow>
           fst (HandleShortURLRequest db longUrl)
             = Inl (FailedToSaveURL (DriverError msg)))"
  proof (cases "last outcomes")
    case None
    then show ?thesis
      using o(5) by simp
  next
    case (Some e)
    then show ?thesis
      using o(5) by (cases e) (simp_all add: isCollisionError_iff split: if_splits)
  qed
  have classes:
    "(\<forall>code msg. isCollisionError (Some (PqError code msg)) = (code = ''23505''))
     \<and> (\<forall>msg. \<not> isCollisionError (Some (DriverError msg)))
     \<and> \<not> isCollisionError None"
    by (simp add: isCollisionError_iff)
  from o(1) o(2) o(3) early final have
    "\<exists>outcomes.
           1 \<le> length outcomes \<and> length outcomes \<le> 5
         \<and> journal (snd (HandleShortURLRequest db longUrl))
             = journal db1 @ attempt_events longUrl 0 outcomes
         \<and> list_all (\<lambda>r. \<exists>msg. r = Some (PqError ''23505'' msg)) (butlast outcomes)
         \<and> (case last outcomes of
               None \<Rightarrow>
                 fst (HandleShortURLRequest db longUrl)
                   = generateFullShortURL
                       (generateShortURLKey longUrl (int (length outcomes - 1)))
             | Some (PqError code msg) \<Rightarrow>
                 if code = ''23505''
                 then length outcomes = 5
                      \<and> fst (HandleShortURLRequest db longUrl)
                          = Inl (FailedToSaveAfterAttempts 5 (PqError code msg))
                 else fst (HandleShortURLRequest db longUrl)
                        = Inl (FailedToSaveURL (PqError code msg))
             | Some (DriverError msg) \<Rightarrow>
                 fst (HandleShortURLRequest db longUrl)
                   = Inl (FailedToSaveURL (DriverError msg)))"
    by (intro exI [of _ outcomes] conjI)
  from this classes show ?thesis
    by (rule conjI)
qed

text \<open>
  Claim C8. When the validator rejects the long URL, \<open>HandleShortURLRequest\<close> returns the
  validation error, and the store is the one it was given: no row, no pending failure
  and no journal entry differs, so no statement was sent.
\<close>

theorem C8_rejected_url_leaves_store:
  "ValidateLongURL longUrl = Some err \<Longrightarrow>
   HandleShortURLRequest db longUrl = (Inl (ValidationFailed err), db)"
  by (simp add: HandleShortURLRequest_def)

theorem C8_rejected_url_witness:
  "ValidateLongURL ''ftp://example.com'' = Some SchemeNotHTTP
   \<and> HandleShortURLRequest empty_db ''ftp://example.com''
       = (Inl (ValidationFailed SchemeNotHTTP), empty_db)"
  using C8_rejected_url_leaves_store [OF validate_ftp_rejected, of empty_db]
    validate_ftp_rejected
  by simp

theorem C5_bounded_retry_witness:
  "ValidateLongURL ''https://example.com/a'' = None
   \<and> CheckDbForLongURL
        \<lparr>rows = [],
         faults = [None, Some (PqError ''23505'' ''dup''), Some (PqError ''23505'' ''dup''),
                   Some (PqError ''23505'' ''dup''), Some (PqError ''23505'' ''dup''),
                   Some (PqError ''23505'' ''dup'')],
         journal = []\<rparr> ''https://example.com/a''
       = (Inr '''',
          \<lparr>rows = [],
           faults = [Some (PqError ''23505'' ''dup''), Some (PqError ''23505'' ''dup''),
                     Some (PqError ''23505'' ''dup''), Some (PqError ''23505'' ''dup''),
                     Some (PqError ''23505'' ''dup'')],
           journal = [SelectShortKey ''https://example.com/a'' (Inl ErrNoRows)]\<rparr>)
   \<and> fst (HandleShortURLRequest
        \<lparr>rows = [],
         faults = [None, Some (PqError ''23505'' ''dup''), Some (PqError ''23505'' ''dup''),
                   Some (PqError ''23505'' ''dup''), Some (PqError ''23505'' ''dup''),
                   Some (PqError ''23505'' ''dup'')],
         journal = []\<rparr> ''https://example.com/a'')
       = Inl (FailedToSaveAfterAttempts 5 (PqError ''23505'' ''dup''))
   \<and> (\<exists>outcomes. length outcomes \<le> 5
        \<and> journal (snd (HandleShortURLRequest
             \<lparr>rows = [],
              faults = [None, Some (PqError ''23505'' ''dup''), Some (PqError ''23505'' ''dup''),
                        Some (PqError ''23505'' ''dup''), Some (PqError ''23505'' ''dup''),
                        Some (PqError ''23505'' ''dup'')],
              journal = []\<rparr> ''https://example.com/a''))
            = [SelectShortKey ''https://example.com/a'' (Inl ErrNoRows)]
              @ attempt_events ''https://example.com/a'' 0 outcomes)
   \<and> CheckDbForLongURL
        \<lparr>rows = [],
         faults = [None, Some (PqError ''23505'' ''dup''), Some (DriverError ''bad connection'')],
         journal = []\<rparr> ''https://example.com/a''
       = (Inr '''',
          \<lparr>rows = [],
           faults = [Some (PqError ''23505'' ''dup''), Some (DriverError ''bad connection'')],
           journal = [SelectShortKey ''https://example.com/a'' (Inl ErrNoRows)]\<rparr>)
   \<and> HandleShortURLRequest
        \<lparr>rows = [],
         faults = [None, Some (PqError ''23505'' ''dup''), Some (DriverError ''bad connection'')],
         journal = []\<rparr> ''https://example.com/a''
       = (Inl (FailedToSaveURL (DriverError ''bad connection'')),
          \<lparr>rows = [], faults = [],
           journal = [SelectShortKey ''https://example.com/a'' (Inl ErrNoRows),
                      InsertURL (generateShortURLKey ''https://example.com/a'' 0)
                        ''https://example.com/a'' (Some (PqError ''23505'' ''dup'')),
                      InsertURL (generateShortURLKey ''https://example.com/a'' 1)
                        ''https://example.com/a'' (Some (DriverError ''bad connection''))]\<rparr>)
   \<and> CheckDbForLongURL
        \<lparr>rows = [], faults = [None, Some (PqError ''57014'' ''cancelled''), None],
         journal = []\<rparr> ''https://example.com/a''
       = (Inr '''',
          \<lparr>rows = [], faults = [Some (PqError ''57014'' ''cancelled''), None],
           journal = [SelectShortKey ''https://example.com/a'' (Inl ErrNoRows)]\<rparr>)
   \<and> HandleShortURLRequest
        \<lparr>rows = [], faults = [None, Some (PqError ''57014'' ''cancelled''), None],
         journal = []\<rparr> ''https://example.com/a''
       = (Inl (FailedToSaveURL (PqError ''57014'' ''cancelled'')),
          \<lparr>rows = [], faults = [None],
           journal = [SelectShortKey ''https://example.com/a'' (Inl ErrNoRows),
                      InsertURL (generateShortURLKey ''https://example.com/a'' 0)
                        ''https://example.com/a'' (Some (PqError ''57014'' ''cancelled''))]\<rparr>)
   \<and> isCollisionError (Some (PqError ''23505'' ''dup''))
   \<and> isCollisionError (Some (DriverError ''bad connection'')) = False
   \<and> isCollisionError (Some (PqError ''57014'' ''cancelled'')) = False"
proof -
  let ?c = "PqError ''23505'' ''dup''"
  let ?d = "DriverError ''bad connection''"
  let ?q = "PqError ''57014'' ''cancelled''"
  let ?u = "''https://example.com/a''"
  let ?sel = "SelectShortKey ?u (Inl ErrNoRows)"
  let ?dbA = "\<lparr>rows = [], faults = [None, Some ?c, Some ?c, Some ?c, Some ?c, Some ?c],
               journal = []\<rparr>"
  let ?dbA1 = "\<lparr>rows = [], faults = [Some ?c, Some ?c, Some ?c, Some ?c, Some ?c],
                journal = [?sel]\<rparr>"
  let ?dbB = "\<lparr>rows = [], faults = [None, Some ?c, Some ?d], journal = []\<rparr>"
  let ?dbB1 = "\<lparr>rows = [], faults = [Some ?c, Some ?d], journal = [?sel]\<rparr>"
  let ?dbC = "\<lparr>rows = [], faults = [None, Some ?q, None], journal = []\<rparr>"
  let ?dbC1 = "\<lparr>rows = [], faults = [Some ?q, None], journal = [?sel]\<rparr>"
  note run = validate_ok_request [OF validate_example_ok] select_result select_state
    next_fault_def save_loop_step save_loop_done MaxRetries_def insert_result insert_state
    isCollisionError_def after_loop_def
  have lookA: "CheckDbForLongURL ?dbA ?u = (Inr '''', ?dbA1)"
    by (simp add: CheckDbForLongURL_def sql_select_short_key_def next_fault_def Let_def)
  have lookB: "CheckDbForLongURL ?dbB ?u = (Inr '''', ?dbB1)"
    by (simp add: CheckDbForLongURL_def sql_select_short_key_def next_fault_def Let_def)
  have lookC: "CheckDbForLongURL ?dbC ?u = (Inr '''', ?dbC1)"
    by (simp add: CheckDbForLongURL_def sql_select_short_key_def next_fault_def Let_def)
  have resA: "fst (HandleShortURLRequest ?dbA ?u) = Inl (FailedToSaveAfterAttempts 5 ?c)"
    by (simp add: run)
  have resB: "HandleShortURLRequest ?dbB ?u
      = (Inl (FailedToSaveURL ?d),
         \<lparr>rows = [], faults = [],
          journal = [?sel, InsertURL (generateShortURLKey ?u 0) ?u (Some ?c),
                     InsertURL (generateShortURLKey ?u 1) ?u (Some ?d)]\<rparr>)"
    by (simp add: run)
  have resC: "HandleShortURLRequest ?dbC ?u
      = (Inl (FailedToSaveURL ?q),
         \<lparr>rows = [], faults = [None],
          journal = [?sel, InsertURL (generateShortURLKey ?u 0) ?u (Some ?q)]\<rparr>)"
    by (simp add: run)
  note instA = C5_bounded_retry [OF validate_example_ok lookA]
  note instB = C5_bounded_retry [OF validate_example_ok lookB]
  note instC = C5_bounded_retry [OF validate_example_ok lookC]
  from instA [THEN conjunct1]
  have boundA: "\<exists>outcomes. length outcomes \<le> 5
        \<and> journal (snd (HandleShortURLRequest ?dbA ?u)) = [?sel] @ attempt_events ?u 0 outcomes"
    by auto
  from instA [THEN conjunct2, THEN conjunct1]
  have clsA: "isCollisionError (Some ?c)"
    by simp
  from instB [THEN conjunct2, THEN conjunct2, THEN conjunct1]
  have clsB: "isCollisionError (Some ?d) = False"
    by simp
  from instC [THEN conjunct2, THEN conjunct1]
  have clsC: "isCollisionError (Some ?q) = False"
    by simp
  from validate_example_ok lookA resA boundA lookB resB lookC resC clsA clsB clsC
  show ?thesis
    by simp
qed

lemma full_url_of_generated:
  "generateFullShortURL (generateShortURLKey u s)
     = Inr (''http://shan747.urs/'' @ generateShortURLKey u s)"
  by (simp add: generateFullShortURL_def url_JoinPath_def generateShortURLKey_isKeyChar
      generateShortURLKey_nonempty)

lemma save_loop_rows:
  assumes "a < MaxRetries"
  shows "rows (snd (save_loop u a k err db)) = rows db
         \<or> (\<exists>key. rows (snd (save_loop u a k err db))
                     = rows db @ [\<lparr>short_key = key, long_url = u, click_count = 0\<rparr>]
                 \<and> fst (save_loop u a k err db) = generateFullShortURL key
                 \<and> length key = 7)"
proof -
  from save_loop_trace [OF assms, of u k err db] obtain outcomes where
    "case last outcomes of
       None \<Rightarrow>
         fst (save_loop u a k err db)
           = generateFullShortURL (generateShortURLKey u (int (a + length outcomes - 1)))
         \<and> rows (snd (save_loop u a k err db))
           = rows db @ [\<lparr>short_key = generateShortURLKey u (int (a + length outcomes - 1)),
                         long_url = u, click_count = 0\<rparr>]
     | Some e \<Rightarrow>
         rows (snd (save_loop u a k err db)) = rows db
         \<and> (if isCollisionError (Some e)
            then a + length outcomes = MaxRetries
                 \<and> fst (save_loop u a k err db) = Inl (FailedToSaveAfterAttempts MaxRetries e)
            else fst (save_loop u a k err db) = Inl (FailedToSaveURL e))"
    by blast
  then show ?thesis
    by (cases "last outcomes") (auto simp add: length_generateShortURLKey)
qed

lemma save_loop_success:
  assumes "a < MaxRetries" and "save_loop u a k err db = (Inr s, db1)"
  shows "\<exists>key. rows db1 = rows db @ [\<lparr>short_key = key, long_url = u, click_count = 0\<rparr>]
               \<and> generateFullShortURL key = Inr s \<and> key \<noteq> []"
proof -
  from save_loop_trace [OF assms(1), of u k err db] obtain outcomes where
    "case last outcomes of
       None \<Rightarrow>
         fst (save_loop u a k err db)
           = generateFullShortURL (generateShortURLKey u (int (a + length outcomes - 1)))
         \<and> rows (snd (save_loop u a k err db))
           = rows db @ [\<lparr>short_key = generateShortURLKey u (int (a + length outcomes - 1)),
                         long_url = u, click_count = 0\<rparr>]
     | Some e \<Rightarrow>
         rows (snd (save_loop u a k err db)) = rows db
         \<and> (if isCollisionError (Some e)
            then a + length outcomes = MaxRetries
                 \<and> fst (save_loop u a k err db) = Inl (FailedToSaveAfterAttempts MaxRetries e)
            else fst (save_loop u a k err db) = Inl (FailedToSaveURL e))"
    by blast
  then show ?thesis
    using assms(2)
    by (cases "last outcomes")
       (auto simp add: generateShortURLKey_nonempty split: if_splits)
qed

lemma select_rows: "rows (snd (sql_select_short_key db u)) = rows db"
  by (simp add: select_state)

lemma shorten_found:
  assumes "ValidateLongURL u = None" and "next_fault db = None"
    and "find (\<lambda>r. long_url r = u) (rows db) = Some r" and "short_key r \<noteq> []"
  shows "HandleShortURLRequest db u =
           (generateFullShortURL (short_key r),
            db\<lparr>faults := tl (faults db),
               journal := journal db @ [SelectShortKey u (Inr (short_key r))]\<rparr>)"
proof -
  have "fst (sql_select_short_key db u) = Inr (short_key r)"
    by (simp add: select_result assms)
  then show ?thesis
    using assms(4) by (simp add: validate_ok_request [OF assms(1)] select_state)
qed

text \<open>A successful call either found a row for the long URL, with a non-empty key, or
  found no usable row and appended one.\<close>

lemma shorten_success_cases:
  assumes "HandleShortURLRequest db u = (Inr s, db1)"
  shows "ValidateLongURL u = None"
    and "(\<exists>r. find (\<lambda>r. long_url r = u) (rows db) = Some r \<and> short_key r \<noteq> []
              \<and> generateFullShortURL (short_key r) = Inr s \<and> rows db1 = rows db)
         \<or> ((find (\<lambda>r. long_url r = u) (rows db) = None
              \<or> (\<exists>r. find (\<lambda>r. long_url r = u) (rows db) = Some r \<and> short_key r = []))
             \<and> (\<exists>key. rows db1 = rows db @ [\<lparr>short_key = key, long_url = u, click_count = 0\<rparr>]
                      \<and> generateFullShortURL key = Inr s \<and> key \<noteq> []))"
proof -
  show valid: "ValidateLongURL u = None"
    using assms by (cases "ValidateLongURL u") (simp_all add: HandleShortURLRequest_def)
  note req = validate_ok_request [OF valid, of db]
  let ?sel = "fst (sql_select_short_key db u)"
  let ?dbs = "snd (sql_select_short_key db u)"
  have loop: "\<exists>key. rows db1 = rows db @ [\<lparr>short_key = key, long_url = u, click_count = 0\<rparr>]
                  \<and> generateFullShortURL key = Inr s \<and> key \<noteq> []"
    if "save_loop u 0 '''' None ?dbs = (Inr s, db1)"
    using save_loop_success [OF MaxRetries_pos that] by (simp add: select_rows)
  show "(\<exists>r. find (\<lambda>r. long_url r = u) (rows db) = Some r \<and> short_key r \<noteq> []
              \<and> generateFullShortURL (short_key r) = Inr s \<and> rows db1 = rows db)
         \<or> ((find (\<lambda>r. long_url r = u) (rows db) = None
              \<or> (\<exists>r. find (\<lambda>r. long_url r = u) (rows db) = Some r \<and> short_key r = []))
             \<and> (\<exists>key. rows db1 = rows db @ [\<lparr>short_key = key, long_url = u, click_count = 0\<rparr>]
                      \<and> generateFullShortURL key = Inr s \<and> key \<noteq> []))"
  proof (cases ?sel)
    case (Inl se)
    show ?thesis
    proof (cases se)
      case ErrNoRows
      then have "find (\<lambda>r. long_url r = u) (rows db) = None"
        using Inl by (auto simp add: select_result split: option.splits)
      moreover have "save_loop u 0 '''' None ?dbs = (Inr s, db1)"
        using req assms Inl ErrNoRows by simp
      ultimately show ?thesis
        using loop by simp
    next
      case (ScanFailed e)
      then show ?thesis
        using req assms Inl by simp
    qed
  next
    case (Inr k)
    then obtain r where r: "find (\<lambda>r. long_url r = u) (rows db) = Some r" "short_key r = k"
      by (auto simp add: select_result split: option.splits)
    show ?thesis
    proof (cases "k = []")
      case True
      then have "save_loop u 0 '''' None ?dbs = (Inr s, db1)"
        using req assms Inr by simp
      then show ?thesis
        using loop r True by simp
    next
      case False
      then have "generateFullShortURL k = Inr s" and "db1 = ?dbs"
        using req assms Inr by simp_all
      then show ?thesis
        using r False by (simp add: select_rows)
    qed
  qed
qed

lemma find_keys_nonempty:
  "list_all (\<lambda>r. short_key r \<noteq> []) rs \<Longrightarrow> find P rs = Some r \<Longrightarrow> short_key r \<noteq> []"
  by (induct rs) (auto split: if_splits)

lemma find_appended:
  "find P rs = None \<Longrightarrow> P x \<Longrightarrow> find P (rs @ [x]) = Some x"
  by (induct rs) (auto split: if_splits)

text \<open>
  Claim C1. If a call of \<open>HandleShortURLRequest\<close> returns a short URL (so the long URL was
  accepted by the validator), and the store does not fail at the lookup of the next call,
  then the next call for the same long URL returns the same short URL: it only looks the
  long URL up, finds the row with the key already assigned, and renders that key. The
  table is the same after the second call, so no second mapping exists. The stored keys
  are assumed non-empty, as all keys are that the code stores.
\<close>

theorem C1_shorten_twice_same_url:
  assumes "HandleShortURLRequest db longUrl = (Inr shortURL, db1)"
    and "keys_nonempty db"
    and "next_fault db1 = None"
  shows "ValidateLongURL longUrl = None
         \<and> (\<exists>r. find (\<lambda>r. long_url r = longUrl) (rows db1) = Some r
                \<and> generateFullShortURL (short_key r) = Inr shortURL
                \<and> HandleShortURLRequest db1 longUrl =
                    (Inr shortURL,
                     db1\<lparr>faults := tl (faults db1),
                         journal := journal db1 @ [SelectShortKey longUrl (Inr (short_key r))]\<rparr>))"
proof -
  note valid = shorten_success_cases(1) [OF assms(1)]
  let ?found = "\<exists>r. find (\<lambda>r. long_url r = longUrl) (rows db1) = Some r \<and> short_key r \<noteq> []
            \<and> generateFullShortURL (short_key r) = Inr shortURL"
  from shorten_success_cases(2) [OF assms(1)]
  have ?found
  proof (elim disjE exE conjE)
    fix r
    assume "find (\<lambda>r. long_url r = longUrl) (rows db) = Some r" "short_key r \<noteq> []"
      "generateFullShortURL (short_key r) = Inr shortURL" "rows db1 = rows db"
    then show ?found by auto
  next
    fix key
    assume new: "rows db1 = rows db @ [\<lparr>short_key = key, long_url = longUrl, click_count = 0\<rparr>]"
      "generateFullShortURL key = Inr shortURL" "key \<noteq> []"
    assume "find (\<lambda>r. long_url r = longUrl) (rows db) = None"
    then have "find (\<lambda>r. long_url r = longUrl) (rows db1)
                 = Some \<lparr>short_key = key, long_url = longUrl, click_count = 0\<rparr>"
      using new(1) by (simp add: find_appended)
    then show ?found
      using new by auto
  next
    fix key r
    assume "find (\<lambda>r. long_url r = longUrl) (rows db) = Some r" "short_key r = []"
    then have False
      using find_keys_nonempty [of "rows db" "\<lambda>r. long_url r = longUrl" r] assms(2)
      by (simp add: keys_nonempty_def)
    then show ?found ..
  qed
  then obtain r where r: "find (\<lambda>r. long_url r = longUrl) (rows db1) = Some r"
    "short_key r \<noteq> []" "generateFullShortURL (short_key r) = Inr shortURL"
    by blast
  from shorten_found [OF valid assms(3) r(1) r(2)] r valid show ?thesis
    by auto
qed

theorem C1_shorten_twice_witness:
  "HandleShortURLRequest empty_db ''https://example.com/a''
     = (Inr (''http://shan747.urs/'' @ generateShortURLKey ''https://example.com/a'' 0),
        \<lparr>rows = [\<lparr>short_key = generateShortURLKey ''https://example.com/a'' 0,
                   long_url = ''https://example.com/a'', click_count = 0\<rparr>],
         faults = [],
         journal = [SelectShortKey ''https://example.com/a'' (Inl ErrNoRows),
                    InsertURL (generateShortURLKey ''https://example.com/a'' 0)
                      ''https://example.com/a'' None]\<rparr>)
   \<and> keys_nonempty empty_db
   \<and> HandleShortURLRequest
        \<lparr>rows = [\<lparr>short_key = generateShortURLKey ''https://example.com/a'' 0,
                   long_url = ''https://example.com/a'', click_count = 0\<rparr>],
         faults = [],
         journal = [SelectShortKey ''https://example.com/a'' (Inl ErrNoRows),
                    InsertURL (generateShortURLKey ''https://example.com/a'' 0)
                      ''https://example.com/a'' None]\<rparr>
        ''https://example.com/a''
     = (Inr (''http://shan747.urs/'' @ generateShortURLKey ''https://example.com/a'' 0),
        \<lparr>rows = [\<lparr>short_key = generateShortURLKey ''https://example.com/a'' 0,
                   long_url = ''https://example.com/a'', click_count = 0\<rparr>],
         faults = [],
         journal = [SelectShortKey ''https://example.com/a'' (Inl ErrNoRows),
                    InsertURL (generateShortURLKey ''https://example.com/a'' 0)
                      ''https://example.com/a'' None,
                    SelectShortKey ''https://example.com/a''
                      (Inr (generateShortURLKey ''https://example.com/a'' 0))]\<rparr>)"
proof -
  let ?u = "''https://example.com/a''"
  let ?k = "generateShortURLKey ?u 0"
  let ?db1 = "\<lparr>rows = [\<lparr>short_key = ?k, long_url = ?u, click_count = 0\<rparr>], faults = [],
               journal = [SelectShortKey ?u (Inl ErrNoRows), InsertURL ?k ?u None]\<rparr>"
  have first: "HandleShortURLRequest empty_db ?u = (Inr (''http://shan747.urs/'' @ ?k), ?db1)"
    by (simp add: validate_ok_request [OF validate_example_ok] select_result select_state
        next_fault_def empty_db_def save_loop_step MaxRetries_def insert_result insert_state
        length_generateShortURLKey full_url_of_generated)
  have inv: "keys_nonempty empty_db"
    by (simp add: keys_nonempty_def empty_db_def)
  have healthy: "next_fault ?db1 = None"
    by (simp add: next_fault_def)
  from C1_shorten_twice_same_url [OF first inv healthy]
  have "HandleShortURLRequest ?db1 ?u =
          (Inr (''http://shan747.urs/'' @ ?k),
           ?db1\<lparr>faults := tl (faults ?db1),
                journal := journal ?db1 @ [SelectShortKey ?u (Inr ?k)]\<rparr>)"
    by auto
  with first inv show ?thesis
    by simp
qed

lemma shorten_rows:
  "rows (snd (HandleShortURLRequest db u)) = rows db
   \<or> (\<exists>key. rows (snd (HandleShortURLRequest db u))
               = rows db @ [\<lparr>short_key = key, long_url = u, click_count = 0\<rparr>]
           \<and> fst (HandleShortURLRequest db u) = generateFullShortURL key
           \<and> length key = 7)"
proof (cases "ValidateLongURL u")
  case (Some e)
  then show ?thesis
    by (simp add: HandleShortURLRequest_def)
next
  case None
  note req = validate_ok_request [OF None, of db]
  note loop = save_loop_rows [OF MaxRetries_pos, of u "''''" None "snd (sql_select_short_key db u)"]
  show ?thesis
  proof (cases "fst (sql_select_short_key db u)")
    case (Inl se)
    then show ?thesis
      using req loop by (cases se) (simp_all add: select_rows)
  next
    case (Inr k)
    then show ?thesis
      using req loop by (cases "k = []") (simp_all add: select_rows)
  qed
qed

lemma redirect_monotone:
  "list_all2 (\<lambda>r r'. click_count r \<le> click_count r' \<and> click_count r' \<le> click_count r + 1)
     (rows db) (rows (snd (HandleRedirectRequest db k)))"
  using redirect_rows_cases [of db k] by (auto simp add: bump_monotone same_monotone)

lemma redirect_keys_urls:
  "map short_key (rows (snd (HandleRedirectRequest db k))) = map short_key (rows db)
   \<and> map long_url (rows (snd (HandleRedirectRequest db k))) = map long_url (rows db)"
  using redirect_rows_cases [of db k] by (auto simp add: bump_keeps)

lemma redirect_outcome_clicks:
  "(case fst (HandleRedirectRequest db k) of
      Inr u \<Rightarrow> clicks (snd (HandleRedirectRequest db k)) k = map (\<lambda>c. c + 1) (clicks db k)
    | Inl e \<Rightarrow> rows (snd (HandleRedirectRequest db k)) = rows db)"
proof (cases "fst (HandleRedirectRequest db k)")
  case (Inl e)
  then show ?thesis
    by (simp add: redirect_failure_rows)
next
  case (Inr u)
  then have "HandleRedirectRequest db k = (Inr u, snd (HandleRedirectRequest db k))"
    by (simp add: prod_eq_iff)
  from redirect_success_clicks(1) [OF this] Inr show ?thesis
    by simp
qed

text \<open>
  Claim C7. \<open>HandleShortURLRequest\<close> leaves the table as it is or appends exactly one row,
  for the long URL of the call, with \<open>click_count = 0\<close>; the short URL returned is the one
  of that row. \<open>HandleRedirectRequest\<close> keeps every key and long URL, never lowers a
  counter and raises none by more than 1; when it succeeds, the counters under its key
  are each 1 higher, and when it fails the table is unchanged.
\<close>

theorem C7_click_count_starts_at_zero_and_grows:
  "(rows (snd (HandleShortURLRequest db longUrl)) = rows db
    \<or> (\<exists>key. rows (snd (HandleShortURLRequest db longUrl))
                = rows db @ [\<lparr>short_key = key, long_url = longUrl, click_count = 0\<rparr>]
            \<and> fst (HandleShortURLRequest db longUrl) = generateFullShortURL key
            \<and> length key = 7))
   \<and> map short_key (rows (snd (HandleRedirectRequest db shortKey))) = map short_key (rows db)
   \<and> map long_url (rows (snd (HandleRedirectRequest db shortKey))) = map long_url (rows db)
   \<and> list_all2 (\<lambda>r r'. click_count r \<le> click_count r' \<and> click_count r' \<le> click_count r + 1)
        (rows db) (rows (snd (HandleRedirectRequest db shortKey)))
   \<and> (case fst (HandleRedirectRequest db shortKey) of
         Inr u \<Rightarrow>
           clicks (snd (HandleRedirectRequest db shortKey)) shortKey
             = map (\<lambda>c. c + 1) (clicks db shortKey)
       | Inl e \<Rightarrow> rows (snd (HandleRedirectRequest db shortKey)) = rows db)"
  using shorten_rows [of db longUrl] redirect_keys_urls [of db shortKey]
    redirect_monotone [of db shortKey] redirect_outcome_clicks [of db shortKey]
  by blast

lemma slash_not_key_char: "\<not> isKeyChar CHR ''/''"
  by (simp add: isKeyChar_def isUpper_def isLower_def isDigit_def)

lemma key_chars_not_api_path:
  assumes "list_all isKeyChar k"
  shows "\<not> HasPrefix (CHR ''/'' # k) ''/api/''"
proof
  assume "HasPrefix (CHR ''/'' # k) ''/api/''"
  then have "take (length ''api/'') k = ''api/''"
    by (simp add: HasPrefix_def)
  then have "CHR ''/'' \<in> set (take (length ''api/'') k)"
    by simp
  then have "CHR ''/'' \<in> set k"
    by (rule in_set_takeD)
  then show False
    using assms slash_not_key_char by (auto simp add: list_all_iff)
qed

lemma contains_length_text:
  "Contains ''invalid short key length'' ''invalid short key length''"
  by (simp add: Contains_def Index_def HasPrefix_def)

text \<open>
  Claim C6, as stated, fails for the resolution engine: \<open>HandleRedirectRequest\<close> tests
  the length only. A key of 7 characters with a character outside the alphabet reaches
  the store (the journal shows the statement) and gets the not-found error.
\<close>

theorem C6_bad_character_counterexample:
  "\<not> list_all isKeyChar ''abc!123''
   \<and> HandleRedirectRequest empty_db ''abc!123''
       = (Inl ShortURLNotFound,
          \<lparr>rows = [], faults = [],
           journal = [UpdateClickCount ''abc!123'' (Inl ErrNoRows)]\<rparr>)"
  by (simp add: isKeyChar_def isUpper_def isLower_def isDigit_def HandleRedirectRequest_def
      sql_update_click_count_def next_fault_def empty_db_def Let_def)

text \<open>
  Claim C6, amended. \<open>HandleRedirectRequest\<close> rejects a key whose length is not 7 with the
  invalid-length error and leaves the store untouched. A key with a character outside
  \<open>[A-Za-z0-9_-]\<close> is rejected one layer up, by the request handler \<open>handleRedirect\<close>, before
  \<open>HandleRedirectRequest\<close> is called: the response is \<open>invalid short key format\<close> with status
  400 (or the 404 of the handler for paths under \<open>/api/\<close>), and the store is untouched.
  Through the handler a key of key characters and wrong length gets status 400 with the
  invalid-length text, or 404 \<open>short key required\<close> when it is empty.
\<close>

theorem C6_key_shape_rejected_before_store:
  "(length shortKey \<noteq> 7 \<longrightarrow>
      HandleRedirectRequest db shortKey = (Inl InvalidShortKeyLength, db))
   \<and> (\<not> list_all isKeyChar shortKey \<longrightarrow>
        handleRedirect db (CHR ''/'' # shortKey) =
          (if HasPrefix (CHR ''/'' # shortKey) ''/api/''
           then (HttpError ''404 page not found'' 404, db)
           else (HttpError ''invalid short key format'' 400, db)))
   \<and> (list_all isKeyChar shortKey \<and> length shortKey \<noteq> 7 \<longrightarrow>
        handleRedirect db (CHR ''/'' # shortKey) =
          (if shortKey = [] then (HttpError ''short key required'' 404, db)
           else (HttpError ''invalid short key length'' 400, db)))"
proof (intro conjI impI)
  assume "length shortKey \<noteq> 7"
  then show "HandleRedirectRequest db shortKey = (Inl InvalidShortKeyLength, db)"
    by (rule redirect_wrong_length)
next
  assume bad: "\<not> list_all isKeyChar shortKey"
  then have "shortKey \<noteq> []"
    by auto
  with bad show "handleRedirect db (CHR ''/'' # shortKey) =
          (if HasPrefix (CHR ''/'' # shortKey) ''/api/''
           then (HttpError ''404 page not found'' 404, db)
           else (HttpError ''invalid short key format'' 400, db))"
    by (simp add: handleRedirect_def)
next
  assume ok: "list_all isKeyChar shortKey \<and> length shortKey \<noteq> 7"
  then have "\<not> HasPrefix (CHR ''/'' # shortKey) ''/api/''"
    by (simp add: key_chars_not_api_path)
  with ok show "handleRedirect db (CHR ''/'' # shortKey) =
          (if shortKey = [] then (HttpError ''short key required'' 404, db)
           else (HttpError ''invalid short key length'' 400, db))"
    by (simp add: handleRedirect_def redirect_wrong_length contains_length_text
        redirect_error_text_def)
qed

theorem C6_key_shape_witness:
  "HandleRedirectRequest empty_db ''abc12'' = (Inl InvalidShortKeyLength, empty_db)
   \<and> handleRedirect empty_db ''/abc!123'' = (HttpError ''invalid short key format'' 400, empty_db)
   \<and> handleRedirect empty_db ''/abc12'' = (HttpError ''invalid short key length'' 400, empty_db)"
proof -
  have bad: "\<not> list_all isKeyChar ''abc!123''"
    by (simp add: isKeyChar_def isUpper_def isLower_def isDigit_def)
  have good: "list_all isKeyChar ''abc12'' \<and> length ''abc12'' \<noteq> 7"
    by (simp add: isKeyChar_def isUpper_def isLower_def isDigit_def)
  have no_api: "\<not> HasPrefix ''/abc!123'' ''/api/''"
    by (simp add: HasPrefix_def)
  note short = C6_key_shape_rejected_before_store [of "''abc12''" empty_db]
  note odd = C6_key_shape_rejected_before_store [of "''abc!123''" empty_db]
  from short [THEN conjunct1] good
  have a: "HandleRedirectRequest empty_db ''abc12'' = (Inl InvalidShortKeyLength, empty_db)"
    by blast
  from odd [THEN conjunct2, THEN conjunct1] bad no_api
  have b: "handleRedirect empty_db ''/abc!123''
             = (HttpError ''invalid short key format'' 400, empty_db)"
    by simp
  from short [THEN conjunct2, THEN conjunct2] good
  have c: "handleRedirect empty_db ''/abc12''
             = (HttpError ''invalid short key length'' 400, empty_db)"
    by simp
  from a b c show ?thesis
    by simp
qed

end
